theory Spec2Isabelle
  imports Complex_Main
begin

section \<open>Data model\<close>

text \<open>
  The program is one Python module, \<^verbatim>\<open>main.py\<close>: FastAPI request handlers over a MongoDB
  collection of contact documents. The handlers are embedded as HOL functions; what they
  call in the standard library, in \<^verbatim>\<open>bson\<close> and in the database is taken as a parameter
  (the record \<open>env\<close> below), so that every theorem holds for whatever those libraries do.

  Text is \<open>string\<close>: a character stands for a code point below 256. A Python \<^verbatim>\<open>dict\<close>
  is an association list with distinct keys in insertion order.
\<close>

record datetime =
  year :: nat
  month :: nat
  day :: nat
  hour :: nat
  minute :: nat
  second :: nat
  microsecond :: nat

text \<open>A Python \<^verbatim>\<open>str\<close>.\<close>

type_synonym str = string

text \<open>Values of a document or of a JSON body.\<close>

datatype val =
    VNone
  | VStr string
  | VInt int
  | VBool bool
  | VDate datetime
  | VOid string
  | VList "val list"
  | VDict "(string \<times> val) list"

type_synonym doc = "(string \<times> val) list"

text \<open>
  A stored document is its identifier (the hexadecimal text of the \<^verbatim>\<open>ObjectId\<close> the driver
  assigned at insertion) and its other fields. \<open>document\<close> is the dictionary the driver hands
  to the program, with \<^verbatim>\<open>_id\<close> first.
\<close>

type_synonym stored = "string \<times> doc"
type_synonym store = "stored list"

definition document :: "stored \<Rightarrow> doc" where
  "document sd = (''_id'', VOid (fst sd)) # snd sd"

text \<open>
  The operator documents the query builder writes:
  \<^verbatim>\<open>{"$regex": p, "$options": o}\<close> (\<open>None\<close>: no \<^verbatim>\<open>$options\<close> key), a bare value (exact match),
  \<^verbatim>\<open>{"$gte": a, "$lte": b}\<close>, and the list of single-key alternatives under \<^verbatim>\<open>$or\<close>.
\<close>

datatype cond =
    Regex string "string option"
  | Equals string
  | Between datetime datetime
  | AnyOf "(string \<times> cond) list"

type_synonym query = "(string \<times> cond) list"

datatype exn =
    HTTPException nat string
  | RequestValidationError
  | ValueError
  | InvalidId
  | WriteError
  | DuplicateKeyError

text \<open>
  The status the framework answers with: an \<^verbatim>\<open>HTTPException\<close> carries its own, a request
  that fails the declared parameters gets 422, and any other exception that leaves a
  handler gets 500.
\<close>

fun status_code :: "exn \<Rightarrow> nat" where
  "status_code (HTTPException code detail) = code"
| "status_code RequestValidationError = 422"
| "status_code e = 500"

text \<open>
  What the program calls and does not define:
  \<^item> \<open>fromisoformat\<close>: \<^verbatim>\<open>datetime.fromisoformat\<close>, \<open>None\<close> where it raises \<^verbatim>\<open>ValueError\<close>;
  \<^item> \<open>objectid\<close>: \<^verbatim>\<open>ObjectId(s)\<close> as the identifier's hexadecimal text, \<open>None\<close> where it raises
    \<^verbatim>\<open>InvalidId\<close> (\<^verbatim>\<open>ObjectId.is_valid\<close> is true exactly where it does not);
  \<^item> \<open>leaf_match\<close>: whether the database finds one operator document satisfied by the value
    of a field (\<open>None\<close>: the field is missing);
  \<^item> \<open>bson_le\<close>: the database's order on field values, used for sorting;
  \<^item> \<open>update_key_ok\<close>: whether the database accepts a key of a \<^verbatim>\<open>$set\<close> document as the
    path of a field (it refuses an empty name, for one);
  \<^item> \<open>set_below\<close>: for a key with a dot, \<^verbatim>\<open>field.rest\<close>, what the database makes of the
    field: from \<open>rest\<close>, the new value and the field's present value (\<open>None\<close>: the field is
    missing) to the field's value after the update, or the error it raises (writing
    into a date or a string, say);
  \<^item> \<open>strftime\<close>: \<^verbatim>\<open>value.strftime("%Y-%m-%d %H:%M:%S")\<close>;
  \<^item> \<open>str_val\<close>: \<^verbatim>\<open>str(value)\<close> of a list or dictionary;
  \<^item> \<open>str_exn\<close>: \<^verbatim>\<open>str(e)\<close> of an exception.
\<close>

record env =
  fromisoformat :: "string \<Rightarrow> datetime option"
  objectid :: "string \<Rightarrow> string option"
  leaf_match :: "cond \<Rightarrow> val option \<Rightarrow> bool"
  bson_le :: "val option \<Rightarrow> val option \<Rightarrow> bool"
  update_key_ok :: "string \<Rightarrow> bool"
  set_below :: "string \<Rightarrow> val \<Rightarrow> val option \<Rightarrow> exn + val"
  strftime :: "datetime \<Rightarrow> string"
  str_val :: "val \<Rightarrow> string"
  str_exn :: "exn \<Rightarrow> string"

section \<open>Python strings and dictionaries\<close>

text \<open>\<^verbatim>\<open>str.isspace\<close> on the code points below 256.\<close>

definition isspace :: "char \<Rightarrow> bool" where
  "isspace c = ((of_char c :: nat) \<in> {9, 10, 11, 12, 13, 28, 29, 30, 31, 32, 133, 160})"

definition strip :: "string \<Rightarrow> string" where
  "strip s = rev (dropWhile isspace (rev (dropWhile isspace s)))"

text \<open>\<^verbatim>\<open>str.lower\<close> on the code points below 256: A to Z, and the accented capitals
  192 to 222 except the multiplication sign 215, move up by 32.\<close>

definition lower_char :: "char \<Rightarrow> char" where
  "lower_char c =
     (let n = (of_char c :: nat)
      in if (65 \<le> n \<and> n \<le> 90) \<or> (192 \<le> n \<and> n \<le> 222 \<and> n \<noteq> 215)
         then char_of (n + 32) else c)"

definition lower :: "string \<Rightarrow> string" where
  "lower s = map lower_char s"

text \<open>\<^verbatim>\<open>d[k] = v\<close>: an existing key keeps its place, a new key goes last.\<close>

fun setitem :: "string \<Rightarrow> 'v \<Rightarrow> (string \<times> 'v) list \<Rightarrow> (string \<times> 'v) list" where
  "setitem k v [] = [(k, v)]"
| "setitem k v ((k', v') # d) = (if k' = k then (k, v) # d else (k', v') # setitem k v d)"

section \<open>The query builder and the list handler\<close>

text \<open>\<^verbatim>\<open>query.get("$or", [])\<close>; the builder stores nothing but a list under that key.\<close>

definition get_or :: "query \<Rightarrow> (string \<times> cond) list" where
  "get_or q = (case map_of q ''$or'' of Some (AnyOf alts) \<Rightarrow> alts | _ \<Rightarrow> [])"

text \<open>\<^verbatim>\<open>datetime.combine(d, datetime.max.time())\<close>: the date of \<open>d\<close> at 23:59:59.999999.\<close>

definition combine_max_time :: "datetime \<Rightarrow> datetime" where
  "combine_max_time d = d\<lparr>hour := 23, minute := 59, second := 59, microsecond := 999999\<rparr>"

text \<open>
  Lines 169 to 214 of \<^verbatim>\<open>get_history\<close> build the dictionary \<^verbatim>\<open>query\<close> by seven \<^verbatim>\<open>if\<close>
  statements in a row; each is one function below, from the dictionary before the
  statement to the dictionary after it. A string is true when it is not empty.
  \<^verbatim>\<open>fromisoformat\<close> raises \<^verbatim>\<open>ValueError\<close>, which nothing in the handler catches.
\<close>

definition search_filter :: "string \<Rightarrow> query \<Rightarrow> query" where
  "search_filter search q =
     (if strip search \<noteq> [] then
        setitem ''$or'' (AnyOf [
          (''name'', Regex search (Some ''i'')),
          (''company_name'', Regex search (Some ''i'')),
          (''mobile'', Regex search None),
          (''email'', Regex search (Some ''i''))]) q
      else q)"

definition company_filter :: "string \<Rightarrow> query \<Rightarrow> query" where
  "company_filter company q =
     (if strip company \<noteq> [] then setitem ''company_name'' (Regex company (Some ''i'')) q
      else q)"

definition phone_filter :: "string \<Rightarrow> query \<Rightarrow> query" where
  "phone_filter phone q =
     (if strip phone \<noteq> [] then
        setitem ''$or'' (AnyOf (get_or q @ [
          (''mobile'', Regex phone None),
          (''mobile2'', Regex phone None)])) q
      else q)"

definition disposition_filter :: "string \<Rightarrow> query \<Rightarrow> query" where
  "disposition_filter disposition q =
     (if strip disposition \<noteq> [] then setitem ''disposition'' (Equals disposition) q
      else q)"

definition call_date_filter :: "env \<Rightarrow> string \<Rightarrow> string \<Rightarrow> query \<Rightarrow> exn + query" where
  "call_date_filter env call_start call_end q =
     (if call_start \<noteq> [] \<and> call_end \<noteq> [] then
        (case fromisoformat env call_start of
           None \<Rightarrow> Inl ValueError
         | Some a \<Rightarrow>
            (case fromisoformat env call_end of
               None \<Rightarrow> Inl ValueError
             | Some b \<Rightarrow> Inr (setitem ''call_date'' (Between a b) q)))
      else Inr q)"

definition lead_date_filter :: "env \<Rightarrow> string \<Rightarrow> string \<Rightarrow> query \<Rightarrow> exn + query" where
  "lead_date_filter env lead_start lead_end q =
     (if lead_start \<noteq> [] \<and> lead_end \<noteq> [] then
        (case fromisoformat env lead_start of
           None \<Rightarrow> Inl ValueError
         | Some a \<Rightarrow>
            (case fromisoformat env lead_end of
               None \<Rightarrow> Inl ValueError
             | Some b \<Rightarrow> Inr (setitem ''lead_entry_date'' (Between a b) q)))
      else Inr q)"

definition created_at_filter :: "env \<Rightarrow> string \<Rightarrow> string \<Rightarrow> query \<Rightarrow> exn + query" where
  "created_at_filter env start end' q =
     (if start \<noteq> [] \<and> end' \<noteq> [] then
        (case fromisoformat env start of
           None \<Rightarrow> Inl ValueError
         | Some a \<Rightarrow>
            (case fromisoformat env end' of
               None \<Rightarrow> Inl ValueError
             | Some b \<Rightarrow> Inr (setitem ''created_at'' (Between a (combine_max_time b)) q)))
      else Inr q)"

text \<open>Running the next statement unless an exception is already on its way out.\<close>

definition and_then :: "exn + 'a \<Rightarrow> ('a \<Rightarrow> exn + 'b) \<Rightarrow> exn + 'b" where
  "and_then r f = (case r of Inl e \<Rightarrow> Inl e | Inr x \<Rightarrow> f x)"

definition build_query ::
  "env \<Rightarrow> str \<Rightarrow> str \<Rightarrow> str \<Rightarrow> str \<Rightarrow> str \<Rightarrow> str \<Rightarrow> str \<Rightarrow> str
     \<Rightarrow> str \<Rightarrow> str \<Rightarrow> exn + query" where
  "build_query env search company phone disposition call_start call_end lead_start lead_end
     start end' =
     and_then
       (and_then
          (call_date_filter env call_start call_end
             (disposition_filter disposition
                (phone_filter phone (company_filter company (search_filter search [])))))
          (lead_date_filter env lead_start lead_end))
       (created_at_filter env start end')"

text \<open>
  The database's reading of a query: every top-level key must hold, and the key \<^verbatim>\<open>$or\<close>
  holds when one of its alternatives does.
\<close>

fun cond_holds :: "env \<Rightarrow> doc \<Rightarrow> string \<Rightarrow> cond \<Rightarrow> bool" where
  "cond_holds env d k (AnyOf alts) = (\<exists>(k', c') \<in> set alts. cond_holds env d k' c')"
| "cond_holds env d k c = leaf_match env c (map_of d k)"

definition matches :: "env \<Rightarrow> query \<Rightarrow> doc \<Rightarrow> bool" where
  "matches env q d = (\<forall>(k, c) \<in> set q. cond_holds env d k c)"

definition find_docs :: "env \<Rightarrow> query \<Rightarrow> store \<Rightarrow> store" where
  "find_docs env q st = filter (\<lambda>sd. matches env q (document sd)) st"

text \<open>
  \<^verbatim>\<open>cursor.sort(key, -1)\<close>: a stable sort, greatest value of the field first, by the
  database's order.
\<close>

fun insert_desc :: "env \<Rightarrow> string \<Rightarrow> stored \<Rightarrow> store \<Rightarrow> store" where
  "insert_desc env k x [] = [x]"
| "insert_desc env k x (y # ys) =
     (if \<not> bson_le env (map_of (document y) k) (map_of (document x) k)
      then y # insert_desc env k x ys else x # y # ys)"

definition sort_desc :: "env \<Rightarrow> string \<Rightarrow> store \<Rightarrow> store" where
  "sort_desc env k st = foldr (insert_desc env k) st []"

text \<open>Line 216 and line 225.\<close>

definition skip :: "int \<Rightarrow> int \<Rightarrow> int" where
  "skip page limit = (page - 1) * limit"

definition pages :: "int \<Rightarrow> int \<Rightarrow> int" where
  "pages total' limit = (total' + limit - 1) div limit"

text \<open>
  \<^verbatim>\<open>get_history\<close>. The framework has checked \<open>page \<ge> 1\<close> and \<open>1 \<le> limit \<le> 200\<close> before the
  handler runs. Each document of the page has its \<^verbatim>\<open>_id\<close> replaced by its text.
\<close>

definition get_history ::
  "env \<Rightarrow> store \<Rightarrow> int \<Rightarrow> int \<Rightarrow> str \<Rightarrow> str \<Rightarrow> str \<Rightarrow> str \<Rightarrow> str \<Rightarrow> str
     \<Rightarrow> str \<Rightarrow> str \<Rightarrow> str \<Rightarrow> str \<Rightarrow> exn + doc" where
  "get_history env st page limit search company phone disposition call_start call_end
     lead_start lead_end start end' =
    (case build_query env search company phone disposition call_start call_end
            lead_start lead_end start end' of
       Inl e \<Rightarrow> Inl e
     | Inr q \<Rightarrow>
        (let cursor = take (nat limit) (drop (nat (skip page limit))
                        (sort_desc env ''created_at'' (find_docs env q st)));
             history = map (\<lambda>sd. VDict ((''_id'', VStr (fst sd)) # snd sd)) cursor;
             total' = int (length (find_docs env q st))
         in Inr [(''history'', VList history),
                 (''page'', VInt page),
                 (''pages'', VInt (pages total' limit)),
                 (''total'', VInt total')]))"

section \<open>The collection\<close>

text \<open>
  The driver's operations on the collection, as far as the handlers use them.

  The driver writes a value in the database's format on its way in, and that format keeps
  a date to the millisecond: the microseconds of a \<^verbatim>\<open>datetime\<close> are cut to a multiple
  of 1000, at any depth of the value.
\<close>

definition bson_datetime :: "datetime \<Rightarrow> datetime" where
  "bson_datetime d = d\<lparr>microsecond := microsecond d div 1000 * 1000\<rparr>"

fun bson :: "val \<Rightarrow> val" where
  "bson (VDate d) = VDate (bson_datetime d)"
| "bson (VList xs) = VList (map bson xs)"
| "bson (VDict kvs) = VDict (map (\<lambda>kv. (fst kv, bson (snd kv))) kvs)"
| "bson v = v"

text \<open>
  \<^verbatim>\<open>insert_one\<close> stores the document, so written, under the identifier the driver made for
  it; an identifier already in use is refused. The collection keeps insertion order.
\<close>

definition insert_one :: "string \<Rightarrow> doc \<Rightarrow> store \<Rightarrow> exn + store" where
  "insert_one new_id d st =
     (if new_id \<in> set (map fst st) then Inl DuplicateKeyError
      else Inr (st @ [(new_id, map (\<lambda>kv. (fst kv, bson (snd kv))) d)]))"

text \<open>
  A key of a \<^verbatim>\<open>$set\<close> document is a path: the field it addresses is the text before the
  first dot, and the text after that dot, when there is one, leads on into the field's
  value.
\<close>

definition top_field :: "string \<Rightarrow> string" where
  "top_field key = takeWhile (\<lambda>c. c \<noteq> CHR ''.'') key"

definition below :: "string \<Rightarrow> string option" where
  "below key = (case dropWhile (\<lambda>c. c \<noteq> CHR ''.'') key of [] \<Rightarrow> None | c # rest \<Rightarrow> Some rest)"

text \<open>
  One entry of \<^verbatim>\<open>{"$set": data}\<close> on the fields of a document. A key without a dot
  assigns the field; a key with a dot changes the field as the database writes into its
  value. Either way no other field is touched.
\<close>

definition set_entry :: "env \<Rightarrow> string \<Rightarrow> val \<Rightarrow> doc \<Rightarrow> exn + doc" where
  "set_entry env key v d =
     (if \<not> update_key_ok env key then Inl WriteError
      else case below key of
             None \<Rightarrow> Inr (setitem key (bson v) d)
           | Some rest \<Rightarrow>
              (case set_below env rest (bson v) (map_of d (top_field key)) of
                 Inl e \<Rightarrow> Inl e
               | Inr x \<Rightarrow> Inr (setitem (top_field key) x d)))"

fun set_fields :: "env \<Rightarrow> doc \<Rightarrow> doc \<Rightarrow> exn + doc" where
  "set_fields env [] d = Inr d"
| "set_fields env (kv # data) d =
     (case set_entry env (fst kv) (snd kv) d of
        Inl e \<Rightarrow> Inl e
      | Inr d' \<Rightarrow> set_fields env data d')"

text \<open>
  Two keys of one \<^verbatim>\<open>$set\<close> conflict when one is a path through the other
  (\<^verbatim>\<open>a\<close> and \<^verbatim>\<open>a.b\<close>); the database refuses the whole update.
\<close>

definition conflict :: "doc \<Rightarrow> bool" where
  "conflict data =
     list_ex (\<lambda>k1. list_ex (\<lambda>k2. take (Suc (length k1)) k2 = k1 @ ''.'') (map fst data))
       (map fst data)"

text \<open>
  \<^verbatim>\<open>{"$set": data}\<close> on one document: the entries are applied in the order of the map, all
  or none. The database refuses to change \<^verbatim>\<open>_id\<close> or to write into it; it accepts an
  empty \<open>data\<close>, which assigns nothing (MongoDB from version 5.0 on).
\<close>

definition apply_set :: "env \<Rightarrow> doc \<Rightarrow> stored \<Rightarrow> exn + stored" where
  "apply_set env data sd =
     (if conflict data then Inl WriteError
      else if list_ex (\<lambda>kv. top_field (fst kv) = ''_id''
                          \<and> kv \<noteq> (''_id'', VOid (fst sd))) data
      then Inl WriteError
      else case set_fields env (filter (\<lambda>kv. fst kv \<noteq> ''_id'') data) (snd sd) of
             Inl e \<Rightarrow> Inl e
           | Inr d' \<Rightarrow> Inr (fst sd, d'))"

text \<open>
  \<^verbatim>\<open>update_one({"_id": oid}, {"$set": data})\<close>: the first document with that identifier
  is updated. The number returned is \<^verbatim>\<open>modified_count\<close>: 1 when the document changed,
  0 when none matched or the update left it as it was.
\<close>

fun update_one :: "env \<Rightarrow> string \<Rightarrow> doc \<Rightarrow> store \<Rightarrow> exn + (nat \<times> store)" where
  "update_one env oid data [] = Inr (0, [])"
| "update_one env oid data (sd # st) =
     (if fst sd = oid then
        (case apply_set env data sd of
           Inl e \<Rightarrow> Inl e
         | Inr sd' \<Rightarrow> Inr (if sd' = sd then 0 else 1, sd' # st))
      else
        (case update_one env oid data st of
           Inl e \<Rightarrow> Inl e
         | Inr (n, st') \<Rightarrow> Inr (n, sd # st')))"

text \<open>\<^verbatim>\<open>delete_one({"_id": oid})\<close>, with \<^verbatim>\<open>deleted_count\<close>.\<close>

fun delete_one :: "string \<Rightarrow> store \<Rightarrow> nat \<times> store" where
  "delete_one oid [] = (0, [])"
| "delete_one oid (sd # st) =
     (if fst sd = oid then (1, st)
      else (case delete_one oid st of (n, st') \<Rightarrow> (n, sd # st')))"

section \<open>The handlers that write\<close>

text \<open>\<^verbatim>\<open>f(x) if x else None\<close> for an optional form field: \<open>None\<close> and the empty string are false.\<close>

definition if_else_none :: "(string \<Rightarrow> string) \<Rightarrow> string option \<Rightarrow> val" where
  "if_else_none f x =
     (case x of None \<Rightarrow> VNone | Some s \<Rightarrow> if s \<noteq> [] then VStr (f s) else VNone)"

text \<open>
  \<^verbatim>\<open>submit_contact\<close>, lines 118 to 147: the body of the \<^verbatim>\<open>try\<close>. The framework passes the
  sixteen form fields, the required ones as strings and the optional ones as a string or
  \<^verbatim>\<open>None\<close>; \<open>utcnow\<close> is the server clock and \<open>new_id\<close> the identifier the driver makes.
\<close>

definition submit_contact_try ::
  "env \<Rightarrow> datetime \<Rightarrow> str \<Rightarrow> store \<Rightarrow>
   str \<Rightarrow> str \<Rightarrow> str \<Rightarrow> str \<Rightarrow> str option \<Rightarrow> str option \<Rightarrow>
   str \<Rightarrow> str option \<Rightarrow> str option \<Rightarrow> str \<Rightarrow> str \<Rightarrow> str option \<Rightarrow>
   str \<Rightarrow> str \<Rightarrow> str option \<Rightarrow> str \<Rightarrow> (exn + doc) \<times> store" where
  "submit_contact_try env utcnow new_id st
     company_name name designation mobile mobile2 landline
     email email2 linkedin address existing_client partner_name
     call_date lead_entry_date comments disposition =
    (case fromisoformat env call_date of
       None \<Rightarrow> (Inl ValueError, st)
     | Some call_date_parsed \<Rightarrow>
        (case fromisoformat env lead_entry_date of
           None \<Rightarrow> (Inl ValueError, st)
         | Some lead_entry_date_parsed \<Rightarrow>
            (let contact = [
                   (''company_name'', VStr (strip company_name)),
                   (''name'', VStr (strip name)),
                   (''designation'', VStr (strip designation)),
                   (''mobile'', VStr (strip mobile)),
                   (''mobile2'', if_else_none strip mobile2),
                   (''landline'', if_else_none strip landline),
                   (''email'', VStr (lower (strip email))),
                   (''email2'', if_else_none (\<lambda>s. lower (strip s)) email2),
                   (''linkedin'', if_else_none strip linkedin),
                   (''address'', VStr (strip address)),
                   (''existing_client'', VStr existing_client),
                   (''partner_name'', if_else_none strip partner_name),
                   (''call_date'', VDate call_date_parsed),
                   (''lead_entry_date'', VDate lead_entry_date_parsed),
                   (''comments'', if_else_none strip comments),
                   (''disposition'', VStr disposition),
                   (''created_at'', VDate utcnow)]
             in case insert_one new_id contact st of
                  Inl e \<Rightarrow> (Inl e, st)
                | Inr st' \<Rightarrow>
                    (Inr [(''status'', VStr ''success''),
                          (''message'', VStr ''Contact saved successfully'')], st'))))"

text \<open>Lines 149 to 151: \<^verbatim>\<open>except Exception\<close> turns whatever the body raised into status 500.\<close>

definition submit_contact ::
  "env \<Rightarrow> datetime \<Rightarrow> str \<Rightarrow> store \<Rightarrow>
   str \<Rightarrow> str \<Rightarrow> str \<Rightarrow> str \<Rightarrow> str option \<Rightarrow> str option \<Rightarrow>
   str \<Rightarrow> str option \<Rightarrow> str option \<Rightarrow> str \<Rightarrow> str \<Rightarrow> str option \<Rightarrow>
   str \<Rightarrow> str \<Rightarrow> str option \<Rightarrow> str \<Rightarrow> (exn + doc) \<times> store" where
  "submit_contact env utcnow new_id st
     company_name name designation mobile mobile2 landline
     email email2 linkedin address existing_client partner_name
     call_date lead_entry_date comments disposition =
    (case submit_contact_try env utcnow new_id st
            company_name name designation mobile mobile2 landline
            email email2 linkedin address existing_client partner_name
            call_date lead_entry_date comments disposition of
       (Inl e, st') \<Rightarrow> (Inl (HTTPException 500 ''Server error while saving contact''), st')
     | (Inr r, st') \<Rightarrow> (Inr r, st'))"

text \<open>
  The route \<^verbatim>\<open>POST /submit\<close>, lines 97 to 117 with the handler behind them. Every
  parameter is a form field, \<open>None\<close> when the form does not have it. The framework reads a
  field that is absent or empty as missing: a missing field declared \<^verbatim>\<open>Form(...)\<close> is
  refused before the handler runs, a missing field declared \<^verbatim>\<open>Form(None)\<close> reaches the
  handler as \<^verbatim>\<open>None\<close>.
\<close>

definition missing :: "str option \<Rightarrow> bool" where
  "missing v = (v = None \<or> v = Some [])"

definition given :: "str option \<Rightarrow> str option" where
  "given v = (if missing v then None else v)"

definition post_submit ::
  "env \<Rightarrow> datetime \<Rightarrow> string \<Rightarrow> store \<Rightarrow>
   str option \<Rightarrow> str option \<Rightarrow> str option \<Rightarrow> str option \<Rightarrow> str option \<Rightarrow> str option \<Rightarrow>
   str option \<Rightarrow> str option \<Rightarrow> str option \<Rightarrow> str option \<Rightarrow> str option \<Rightarrow> str option \<Rightarrow>
   str option \<Rightarrow> str option \<Rightarrow> str option \<Rightarrow> str option \<Rightarrow> (exn + doc) \<times> store" where
  "post_submit env utcnow new_id st
     company_name name designation mobile mobile2 landline
     email email2 linkedin address existing_client partner_name
     call_date lead_entry_date comments disposition =
    (if missing company_name \<or> missing name \<or> missing designation \<or> missing mobile
        \<or> missing email \<or> missing address \<or> missing existing_client
        \<or> missing call_date \<or> missing lead_entry_date \<or> missing disposition
     then (Inl RequestValidationError, st)
     else submit_contact env utcnow new_id st
            (the company_name) (the name) (the designation) (the mobile)
            (given mobile2) (given landline) (the email) (given email2) (given linkedin)
            (the address) (the existing_client) (given partner_name)
            (the call_date) (the lead_entry_date) (given comments) (the disposition))"

text \<open>
  \<^verbatim>\<open>update_contact\<close>, lines 241 to 243: one round of the loop over the two date fields.
  A value that is a string is parsed; \<^verbatim>\<open>ValueError\<close> is not caught.
\<close>

definition parse_date_field :: "env \<Rightarrow> string \<Rightarrow> doc \<Rightarrow> exn + doc" where
  "parse_date_field env field data =
     (case map_of data field of
        Some (VStr s) \<Rightarrow>
          (case fromisoformat env s of
             None \<Rightarrow> Inl ValueError
           | Some d \<Rightarrow> Inr (setitem field (VDate d) data))
      | _ \<Rightarrow> Inr data)"

definition update_contact :: "env \<Rightarrow> string \<Rightarrow> doc \<Rightarrow> store \<Rightarrow> (exn + doc) \<times> store" where
  "update_contact env id' data st =
     (case objectid env id' of
        None \<Rightarrow> (Inl (HTTPException 400 ''Invalid ID''), st)
      | Some oid \<Rightarrow>
         (case and_then (parse_date_field env ''call_date'' data)
                 (parse_date_field env ''lead_entry_date'') of
            Inl e \<Rightarrow> (Inl e, st)
          | Inr data' \<Rightarrow>
             (case update_one env oid data' st of
                Inl e \<Rightarrow> (Inl e, st)
              | Inr (modified_count, st') \<Rightarrow>
                  if modified_count = 0
                  then (Inl (HTTPException 404 ''Contact not found or no changes made''), st')
                  else (Inr [(''status'', VStr ''success''),
                             (''message'', VStr ''Contact updated'')], st'))))"

text \<open>
  \<^verbatim>\<open>delete_contact\<close>: the body of the \<^verbatim>\<open>try\<close> (lines 339 to 351), then the \<^verbatim>\<open>except Exception\<close>
  of lines 353 and 354. \<^verbatim>\<open>HTTPException\<close> is an \<^verbatim>\<open>Exception\<close>, so the handler catches the
  one its own body raises.
\<close>

definition delete_contact_try :: "env \<Rightarrow> string \<Rightarrow> store \<Rightarrow> (exn + doc) \<times> store" where
  "delete_contact_try env contact_id st =
     (case objectid env contact_id of
        None \<Rightarrow> (Inl InvalidId, st)
      | Some obj_id \<Rightarrow>
         (case delete_one obj_id st of
            (deleted_count, st') \<Rightarrow>
              if deleted_count = 1
              then (Inr [(''status'', VStr ''success''),
                         (''message'', VStr ''Contact deleted successfully''),
                         (''deleted_count'', VInt (int deleted_count))], st')
              else (Inl (HTTPException 404 ''Contact not found''), st')))"

definition delete_contact :: "env \<Rightarrow> string \<Rightarrow> store \<Rightarrow> (exn + doc) \<times> store" where
  "delete_contact env contact_id st =
     (case delete_contact_try env contact_id st of
        (Inl e, st') \<Rightarrow>
          (Inl (HTTPException 500 (''Error deleting contact: '' @ str_exn env e)), st')
      | (Inr r, st') \<Rightarrow> (Inr r, st'))"

section \<open>The export\<close>

text \<open>\<^verbatim>\<open>{"created_at": {"$type": "date"}}\<close>.\<close>

definition is_date :: "val option \<Rightarrow> bool" where
  "is_date v = (case v of Some (VDate d) \<Rightarrow> True | _ \<Rightarrow> False)"

text \<open>Lines 283 to 296, the chain of \<^verbatim>\<open>isinstance\<close> tests in its order.\<close>

definition sanitize_value :: "env \<Rightarrow> val \<Rightarrow> val" where
  "sanitize_value env v =
     (case v of
        VOid s \<Rightarrow> VStr s
      | VDate d \<Rightarrow> VStr (strftime env d)
      | VNone \<Rightarrow> VStr []
      | VList xs \<Rightarrow> VStr (str_val env v)
      | VDict kvs \<Rightarrow> VStr (str_val env v)
      | _ \<Rightarrow> v)"

text \<open>
  \<^verbatim>\<open>pd.DataFrame(cleaned)\<close>: the columns are the keys in the order they are first seen, one
  row for each dictionary, \<open>None\<close> in a cell whose key the dictionary lacks.
\<close>

record table =
  columns :: "string list"
  rows :: "val option list list"

fun first_seen :: "string list \<Rightarrow> string list" where
  "first_seen [] = []"
| "first_seen (x # xs) = x # filter (\<lambda>y. y \<noteq> x) (first_seen xs)"

definition DataFrame :: "doc list \<Rightarrow> table" where
  "DataFrame records =
     (let cols = first_seen (concat (map (map fst) records))
      in \<lparr>columns = cols, rows = map (\<lambda>r. map (map_of r) cols) records\<rparr>)"

definition drop_column :: "string \<Rightarrow> table \<Rightarrow> table" where
  "drop_column c t =
     \<lparr>columns = filter (\<lambda>x. x \<noteq> c) (columns t),
      rows = map (\<lambda>r. map snd (filter (\<lambda>xc. fst xc \<noteq> c) (zip (columns t) r))) (rows t)\<rparr>"

text \<open>
  \<^verbatim>\<open>export_excel\<close>, lines 259 to 304: the table handed to \<^verbatim>\<open>to_excel\<close>. Writing the temporary
  file and the response around it are input and output, outside this model; nothing else in
  the body can raise.
\<close>

definition export_excel :: "env \<Rightarrow> store \<Rightarrow> exn + table" where
  "export_excel env st =
     (let cursor_good = sort_desc env ''created_at''
                          (filter (\<lambda>sd. is_date (map_of (document sd) ''created_at'')) st);
          cursor_bad = filter (\<lambda>sd. \<not> is_date (map_of (document sd) ''created_at'')) st;
          data = map document cursor_good @ map document cursor_bad;
          cleaned = map (map (\<lambda>(key, v). (key, sanitize_value env v))) data;
          df = DataFrame cleaned
      in Inr (if ''created_at'' \<in> set (columns df) then drop_column ''created_at'' df else df))"

section \<open>Requests in sequence\<close>

text \<open>
  The three requests that write to the collection, with what each brings from outside:
  a submission comes with the clock reading and the fresh identifier, then the sixteen
  form fields in the handler's order. One request runs after the other on the collection
  the previous one left (a failed request leaves what its handler left).
\<close>

datatype request =
    Submit datetime str
      str str str str "str option" "str option" str "str option" "str option" str str
      "str option" str str "str option" str
  | Update str doc
  | Delete str

fun serve :: "env \<Rightarrow> request \<Rightarrow> store \<Rightarrow> store" where
  "serve env (Submit utcnow new_id company_name name designation mobile mobile2 landline
       email email2 linkedin address existing_client partner_name
       call_date lead_entry_date comments disposition) st =
     snd (submit_contact env utcnow new_id st company_name name designation mobile mobile2
            landline email email2 linkedin address existing_client partner_name
            call_date lead_entry_date comments disposition)"
| "serve env (Update id' data) st = snd (update_contact env id' data st)"
| "serve env (Delete contact_id) st = snd (delete_contact env contact_id st)"

fun serve_all :: "env \<Rightarrow> request list \<Rightarrow> store \<Rightarrow> store" where
  "serve_all env [] st = st"
| "serve_all env (r # rs) st = serve_all env rs (serve env r st)"

text \<open>
  For each stored document, its identifier with the value of its \<^verbatim>\<open>created_at\<close>; the
  pair a submission stamps on its document (the clock reading as the database keeps it);
  and whether an update names \<^verbatim>\<open>created_at\<close>: one of its keys is \<^verbatim>\<open>created_at\<close> or a path
  that starts with \<^verbatim>\<open>created_at.\<close> and leads into it.
\<close>

definition created :: "store \<Rightarrow> (string \<times> val option) list" where
  "created st = map (\<lambda>sd. (fst sd, map_of (snd sd) ''created_at'')) st"

fun stamp :: "request \<Rightarrow> (string \<times> val option) list" where
  "stamp (Submit utcnow new_id company_name name designation mobile mobile2 landline
       email email2 linkedin address existing_client partner_name
       call_date lead_entry_date comments disposition)
     = [(new_id, Some (VDate (bson_datetime utcnow)))]"
| "stamp (Update id' data) = []"
| "stamp (Delete contact_id) = []"

fun names_created_at :: "request \<Rightarrow> bool" where
  "names_created_at (Update id' data)
     = list_ex (\<lambda>kv. top_field (fst kv) = ''created_at'') data"
| "names_created_at r = False"

section \<open>One concrete environment\<close>

text \<open>
  The theorems below hold for every environment. To run the handlers on concrete requests
  an environment is needed; this one is small: dates are read in the form
  \<^verbatim>\<open>YYYY-MM-DD\<close> only, identifiers are 24 hexadecimal digits, a pattern is matched as literal
  text, dates sort above everything else, and a path leads through embedded documents
  only (it makes the ones that are missing).
\<close>

definition is_digit :: "char \<Rightarrow> bool" where
  "is_digit c = (48 \<le> (of_char c :: nat) \<and> (of_char c :: nat) \<le> 57)"

definition number :: "string \<Rightarrow> nat" where
  "number s = foldl (\<lambda>n c. 10 * n + (of_char c - 48)) 0 s"

definition days_in_month :: "nat \<Rightarrow> nat \<Rightarrow> nat" where
  "days_in_month y m =
     (if m = 2 then (if y mod 4 = 0 \<and> (y mod 100 \<noteq> 0 \<or> y mod 400 = 0) then 29 else 28)
      else if m = 4 \<or> m = 6 \<or> m = 9 \<or> m = 11 then 30 else 31)"

definition sample_fromisoformat :: "string \<Rightarrow> datetime option" where
  "sample_fromisoformat s =
     (if length s = 10 \<and> s ! 4 = CHR ''-'' \<and> s ! 7 = CHR ''-''
         \<and> list_all is_digit (take 4 s @ take 2 (drop 5 s) @ drop 8 s)
      then (let y = number (take 4 s); m = number (take 2 (drop 5 s)); d = number (drop 8 s)
            in if 1 \<le> y \<and> 1 \<le> m \<and> m \<le> 12 \<and> 1 \<le> d \<and> d \<le> days_in_month y m
               then Some \<lparr>year = y, month = m, day = d, hour = 0, minute = 0, second = 0,
                          microsecond = 0\<rparr>
               else None)
      else None)"

definition is_hex :: "char \<Rightarrow> bool" where
  "is_hex c = (let n = (of_char c :: nat)
               in (48 \<le> n \<and> n \<le> 57) \<or> (65 \<le> n \<and> n \<le> 70) \<or> (97 \<le> n \<and> n \<le> 102))"

definition sample_objectid :: "string \<Rightarrow> string option" where
  "sample_objectid s = (if length s = 24 \<and> list_all is_hex s then Some (lower s) else None)"

fun contains :: "string \<Rightarrow> string \<Rightarrow> bool" where
  "contains p [] = (p = [])"
| "contains p (c # cs) = (take (length p) (c # cs) = p \<or> contains p cs)"

text \<open>Earlier or equal, field by field from the year down.\<close>

fun lex_le :: "nat list \<Rightarrow> nat list \<Rightarrow> bool" where
  "lex_le [] ys = True"
| "lex_le (x # xs) [] = False"
| "lex_le (x # xs) (y # ys) = (x < y \<or> (x = y \<and> lex_le xs ys))"

definition dt_le :: "datetime \<Rightarrow> datetime \<Rightarrow> bool" where
  "dt_le a b =
     lex_le [year a, month a, day a, hour a, minute a, second a, microsecond a]
            [year b, month b, day b, hour b, minute b, second b, microsecond b]"

fun sample_leaf_match :: "cond \<Rightarrow> val option \<Rightarrow> bool" where
  "sample_leaf_match (Regex p opts) (Some (VStr s)) =
     (if opts = Some ''i'' then contains (lower p) (lower s) else contains p s)"
| "sample_leaf_match (Equals v) (Some (VStr s)) = (s = v)"
| "sample_leaf_match (Between a b) (Some (VDate t)) = (dt_le a t \<and> dt_le t b)"
| "sample_leaf_match c v = False"

definition sample_bson_le :: "val option \<Rightarrow> val option \<Rightarrow> bool" where
  "sample_bson_le a b =
     (case b of
        Some (VDate y) \<Rightarrow> (case a of Some (VDate x) \<Rightarrow> dt_le x y | _ \<Rightarrow> True)
      | _ \<Rightarrow> \<not> is_date a)"

definition digit_char :: "nat \<Rightarrow> char" where
  "digit_char n = ''0123456789'' ! (n mod 10)"

fun show_nat :: "nat \<Rightarrow> string" where
  "show_nat n =
     (if n < 10 then [digit_char n] else show_nat (n div 10) @ [digit_char n])"

definition digits :: "nat \<Rightarrow> nat \<Rightarrow> string" where
  "digits w n = map (\<lambda>i. digit_char (n div 10 ^ (w - 1 - i))) [0..<w]"

definition sample_strftime :: "datetime \<Rightarrow> string" where
  "sample_strftime d =
     digits 4 (year d) @ ''-'' @ digits 2 (month d) @ ''-'' @ digits 2 (day d) @ '' '' @
     digits 2 (hour d) @ '':'' @ digits 2 (minute d) @ '':'' @ digits 2 (second d)"

fun join :: "string \<Rightarrow> string list \<Rightarrow> string" where
  "join sep [] = []"
| "join sep [x] = x"
| "join sep (x # y # zs) = x @ sep @ join sep (y # zs)"

fun sample_str_val :: "val \<Rightarrow> string" where
  "sample_str_val VNone = ''None''"
| "sample_str_val (VStr s) = s"
| "sample_str_val (VInt i) = (if i < 0 then ''-'' else []) @ show_nat (nat \<bar>i\<bar>)"
| "sample_str_val (VBool b) = (if b then ''True'' else ''False'')"
| "sample_str_val (VDate d) = sample_strftime d"
| "sample_str_val (VOid s) = s"
| "sample_str_val (VList xs) = ''['' @ join '', '' (map sample_str_val xs) @ '']''"
| "sample_str_val (VDict kvs) =
     ''{'' @ join '', '' (map (\<lambda>kv. fst kv @ '': '' @ sample_str_val (snd kv)) kvs) @ ''}''"

fun sample_str_exn :: "exn \<Rightarrow> string" where
  "sample_str_exn (HTTPException code detail) = show_nat code @ '': '' @ detail"
| "sample_str_exn ValueError = ''Invalid isoformat string''"
| "sample_str_exn InvalidId = ''not a valid ObjectId''"
| "sample_str_exn WriteError = ''write error''"
| "sample_str_exn DuplicateKeyError = ''duplicate key error''"

fun split_path :: "string \<Rightarrow> string list" where
  "split_path [] = [[]]"
| "split_path (c # cs) =
     (if c = CHR ''.'' then [] # split_path cs
      else (case split_path cs of [] \<Rightarrow> [[c]] | p # ps \<Rightarrow> (c # p) # ps))"

definition sample_update_key_ok :: "string \<Rightarrow> bool" where
  "sample_update_key_ok key = list_all (\<lambda>p. p \<noteq> [] \<and> hd p \<noteq> CHR ''$'') (split_path key)"

fun set_in :: "string list \<Rightarrow> val \<Rightarrow> val option \<Rightarrow> exn + val" where
  "set_in [] v old = Inr v"
| "set_in (k # ks) v None =
     (case set_in ks v None of Inl e \<Rightarrow> Inl e | Inr x \<Rightarrow> Inr (VDict [(k, x)]))"
| "set_in (k # ks) v (Some (VDict d)) =
     (case set_in ks v (map_of d k) of
        Inl e \<Rightarrow> Inl e
      | Inr x \<Rightarrow> Inr (VDict (setitem k x d)))"
| "set_in (k # ks) v (Some old) = Inl WriteError"

definition sample_set_below :: "string \<Rightarrow> val \<Rightarrow> val option \<Rightarrow> exn + val" where
  "sample_set_below rest v old = set_in (split_path rest) v old"

definition sample_env :: env where
  "sample_env =
     \<lparr>fromisoformat = sample_fromisoformat,
      objectid = sample_objectid,
      leaf_match = sample_leaf_match,
      bson_le = sample_bson_le,
      update_key_ok = sample_update_key_ok,
      set_below = sample_set_below,
      strftime = sample_strftime,
      str_val = sample_str_val,
      str_exn = sample_str_exn\<rparr>"

section \<open>Pagination\<close>

lemma ceil_div_int:
  assumes "1 \<le> (limit::int)"
  shows "- ((- t) div limit) = (t + limit - 1) div limit"
proof -
  define q where "q = t div limit"
  define r where "r = t mod limit"
  have t: "t = limit * q + r" by (simp add: q_def r_def)
  have r: "0 \<le> r" "r < limit" using assms by (simp_all add: r_def)
  show ?thesis
  proof (cases "r = 0")
    case True
    have "(t + limit - 1) div limit = q"
      by (rule int_div_pos_eq [where r = "limit - 1"]) (use t True assms in \<open>simp_all\<close>)
    moreover have "(- t) div limit = - q"
      by (rule int_div_pos_eq [where r = 0]) (use t True assms in \<open>simp_all\<close>)
    ultimately show ?thesis by simp
  next
    case False
    have "(t + limit - 1) div limit = q + 1"
      by (rule int_div_pos_eq [where r = "r - 1"])
         (use t False r in \<open>simp_all add: algebra_simps\<close>)
    moreover have "(- t) div limit = - q - 1"
      by (rule int_div_pos_eq [where r = "limit - r"])
         (use t False r in \<open>simp_all add: algebra_simps\<close>)
    ultimately show ?thesis by simp
  qed
qed

lemma pages_ceiling:
  assumes "1 \<le> limit"
  shows "pages t limit = \<lceil>real_of_int t / real_of_int limit\<rceil>"
  using ceil_div_int [OF assms, of t] by (simp add: pages_def ceiling_divide_eq_div)

lemma pages_zero: "1 \<le> limit \<Longrightarrow> pages 0 limit = 0"
  by (simp add: pages_def div_pos_pos_trivial)

text \<open>
  C2. For every page of at least 1, every limit from 1 to 200 and every total count that is
  not negative, the offset is \<open>(page - 1) * limit\<close>, the page count is the total divided by
  the limit and rounded up, and a total of 0 gives 0 pages.
\<close>

theorem pagination_skip_and_pages:
  assumes "1 \<le> page" and "1 \<le> limit" and "limit \<le> 200" and "0 \<le> total'"
  shows "skip page limit = (page - 1) * limit
       \<and> 0 \<le> skip page limit
       \<and> pages total' limit = \<lceil>real_of_int total' / real_of_int limit\<rceil>
       \<and> pages 0 limit = 0"
proof -
  have "0 \<le> (page - 1) * limit" using assms by simp
  then show ?thesis
    using assms pages_ceiling [of limit total'] pages_zero [of limit] by (simp add: skip_def)
qed

theorem pagination_skip_and_pages_witness:
  "(1::int) \<le> 3 \<and> (1::int) \<le> 50 \<and> (50::int) \<le> 200 \<and> (0::int) \<le> 101
   \<and> skip 3 50 = 100 \<and> pages 101 50 = 3 \<and> pages 0 50 = 0"
proof -
  have "\<lceil>real_of_int 101 / real_of_int 50\<rceil> = (3::int)" by (simp add: ceiling_eq_iff)
  then show ?thesis
    using pagination_skip_and_pages [of 3 50 101] by simp
qed

text \<open>The handler answers with these numbers: the total is the number of matching documents.\<close>

lemma get_history_pages:
  assumes "1 \<le> limit"
    and "get_history env st page limit search company phone disposition call_start call_end
           lead_start lead_end start end' = Inr r"
  shows "\<exists>q. build_query env search company phone disposition call_start call_end
             lead_start lead_end start end' = Inr q
           \<and> map_of r ''total'' = Some (VInt (int (length (find_docs env q st))))
           \<and> map_of r ''pages''
               = Some (VInt \<lceil>real (length (find_docs env q st)) / real_of_int limit\<rceil>)"
proof (cases "build_query env search company phone disposition call_start call_end
                lead_start lead_end start end'")
  case (Inl e)
  then show ?thesis using assms(2) by (simp add: get_history_def)
next
  case (Inr q)
  have "r = [(''history'', VList (map (\<lambda>sd. VDict ((''_id'', VStr (fst sd)) # snd sd))
                (take (nat limit) (drop (nat (skip page limit))
                   (sort_desc env ''created_at'' (find_docs env q st)))))),
             (''page'', VInt page),
             (''pages'', VInt (pages (int (length (find_docs env q st))) limit)),
             (''total'', VInt (int (length (find_docs env q st))))]"
    using assms(2) Inr by (simp add: get_history_def Let_def)
  then show ?thesis
    using Inr pages_ceiling [OF assms(1), of "int (length (find_docs env q st))"] by simp
qed

section \<open>The query predicate\<close>

lemma strip_Nil: "strip [] = []" by (simp add: strip_def)

lemma map_of_setitem: "map_of (setitem k v q) = (map_of q)(k \<mapsto> v)"
  by (induction q) (auto simp: fun_eq_iff)

lemma base_filters_blank_map_of:
  assumes "k \<noteq> ''company_name''" and "k \<noteq> ''disposition''"
  shows "map_of (disposition_filter disposition
                (phone_filter [] (company_filter company (search_filter [] [])))) k = None"
  using assms
  by (simp add: search_filter_def company_filter_def phone_filter_def disposition_filter_def
        strip_Nil map_of_setitem)

lemma base_filters_map_of:
  assumes "k \<noteq> ''$or''" and "k \<noteq> ''company_name''" and "k \<noteq> ''disposition''"
  shows "map_of (disposition_filter disposition
                (phone_filter phone (company_filter company (search_filter search [])))) k = None"
  using assms
  by (simp add: search_filter_def company_filter_def phone_filter_def disposition_filter_def
        map_of_setitem)

lemma date_filter_other:
  "call_date_filter env a b q = Inr q' \<Longrightarrow> k \<noteq> ''call_date'' \<Longrightarrow> map_of q' k = map_of q k"
  "lead_date_filter env a b q = Inr q' \<Longrightarrow> k \<noteq> ''lead_entry_date'' \<Longrightarrow> map_of q' k = map_of q k"
  "created_at_filter env a b q = Inr q' \<Longrightarrow> k \<noteq> ''created_at'' \<Longrightarrow> map_of q' k = map_of q k"
  by (auto simp: call_date_filter_def lead_date_filter_def created_at_filter_def map_of_setitem
        split: if_splits option.splits)

lemma date_filter_one_sided:
  "a = [] \<or> b = [] \<Longrightarrow> call_date_filter env a b q = Inr q"
  "a = [] \<or> b = [] \<Longrightarrow> lead_date_filter env a b q = Inr q"
  "a = [] \<or> b = [] \<Longrightarrow> created_at_filter env a b q = Inr q"
  by (auto simp: call_date_filter_def lead_date_filter_def created_at_filter_def)

lemma call_date_filter_own:
  assumes "call_date_filter env a b q = Inr q'" and "map_of q ''call_date'' = None"
  shows "(map_of q' ''call_date'' \<noteq> None) = (a \<noteq> [] \<and> b \<noteq> [])"
    and "a \<noteq> [] \<and> b \<noteq> [] \<Longrightarrow> \<exists>x y. fromisoformat env a = Some x \<and> fromisoformat env b = Some y
            \<and> map_of q' ''call_date'' = Some (Between x y)"
  using assms
  by (auto simp: call_date_filter_def map_of_setitem split: if_splits option.splits)

lemma lead_date_filter_own:
  assumes "lead_date_filter env a b q = Inr q'" and "map_of q ''lead_entry_date'' = None"
  shows "(map_of q' ''lead_entry_date'' \<noteq> None) = (a \<noteq> [] \<and> b \<noteq> [])"
    and "a \<noteq> [] \<and> b \<noteq> [] \<Longrightarrow> \<exists>x y. fromisoformat env a = Some x \<and> fromisoformat env b = Some y
            \<and> map_of q' ''lead_entry_date'' = Some (Between x y)"
  using assms
  by (auto simp: lead_date_filter_def map_of_setitem split: if_splits option.splits)

lemma created_at_filter_own:
  assumes "created_at_filter env a b q = Inr q'" and "map_of q ''created_at'' = None"
  shows "(map_of q' ''created_at'' \<noteq> None) = (a \<noteq> [] \<and> b \<noteq> [])"
    and "a \<noteq> [] \<and> b \<noteq> [] \<Longrightarrow> \<exists>x y. fromisoformat env a = Some x \<and> fromisoformat env b = Some y
            \<and> map_of q' ''created_at''
                = Some (Between x (y\<lparr>hour := 23, minute := 59, second := 59,
                                       microsecond := 999999\<rparr>))"
  using assms
  by (auto simp: created_at_filter_def combine_max_time_def map_of_setitem
        split: if_splits option.splits)

lemma and_then_simps:
  "and_then (Inl e) f = Inl e"
  "and_then (Inr x) f = f x"
  by (simp_all add: and_then_def)

lemma and_then_assoc:
  "and_then (and_then r f) g = and_then r (\<lambda>x. and_then (f x) g)"
  by (cases r) (simp_all add: and_then_def)

lemma base_filters_both:
  assumes "strip search \<noteq> []" and "strip phone \<noteq> []"
  shows "disposition_filter disposition
                (phone_filter phone (company_filter company (search_filter search [])))
     = (''$or'', AnyOf [
                   (''name'', Regex search (Some ''i'')),
                   (''company_name'', Regex search (Some ''i'')),
                   (''mobile'', Regex search None),
                   (''email'', Regex search (Some ''i'')),
                   (''mobile'', Regex phone None),
                   (''mobile2'', Regex phone None)]) #
       disposition_filter disposition
                (phone_filter [] (company_filter company (search_filter [] [])))"
  using assms
  by (simp add: search_filter_def company_filter_def phone_filter_def disposition_filter_def strip_Nil get_or_def)

lemma date_filter_cons:
  "call_date_filter env a b ((''$or'', x) # q) = and_then (call_date_filter env a b q) (\<lambda>q'. Inr ((''$or'', x) # q'))"
  "lead_date_filter env a b ((''$or'', x) # q) = and_then (lead_date_filter env a b q) (\<lambda>q'. Inr ((''$or'', x) # q'))"
  "created_at_filter env a b ((''$or'', x) # q) = and_then (created_at_filter env a b q) (\<lambda>q'. Inr ((''$or'', x) # q'))"
  by (simp_all add: call_date_filter_def lead_date_filter_def created_at_filter_def and_then_def split: option.splits)

lemma build_query_cons:
  "and_then
       (and_then
          (call_date_filter env cs ce ((''$or'', x) # q))
          (lead_date_filter env ls le))
       (created_at_filter env s e)
   = and_then (and_then
       (and_then
          (call_date_filter env cs ce q)
          (lead_date_filter env ls le))
       (created_at_filter env s e)) (\<lambda>q'. Inr ((''$or'', x) # q'))"
proof (cases "call_date_filter env cs ce q")
  case (Inl a)
  then show ?thesis by (simp add: date_filter_cons and_then_simps)
next
  case (Inr q5)
  show ?thesis
  proof (cases "lead_date_filter env ls le q5")
    case (Inl a)
    then show ?thesis using Inr by (simp add: date_filter_cons and_then_simps)
  next
    case (Inr q6)
    then show ?thesis using \<open>call_date_filter env cs ce q = Inr q5\<close>
      by (simp add: date_filter_cons and_then_simps)
  qed
qed

lemma build_query_both:
  assumes "strip search \<noteq> []" and "strip phone \<noteq> []"
  shows "build_query env search company phone disposition cs ce ls le s e =
    and_then (build_query env [] company [] disposition cs ce ls le s e)
      (\<lambda>q'. Inr ((''$or'', AnyOf [
                   (''name'', Regex search (Some ''i'')),
                   (''company_name'', Regex search (Some ''i'')),
                   (''mobile'', Regex search None),
                   (''email'', Regex search (Some ''i'')),
                   (''mobile'', Regex phone None),
                   (''mobile2'', Regex phone None)]) # q'))"
  unfolding build_query_def base_filters_both [OF assms] build_query_cons ..

lemma matches_Cons: "matches env ((k, c) # q) d \<longleftrightarrow> cond_holds env d k c \<and> matches env q d"
  by (simp add: matches_def)

lemma or_group_holds:
  "cond_holds env d k (AnyOf [
                   (''name'', Regex search (Some ''i'')),
                   (''company_name'', Regex search (Some ''i'')),
                   (''mobile'', Regex search None),
                   (''email'', Regex search (Some ''i'')),
                   (''mobile'', Regex phone None),
                   (''mobile2'', Regex phone None)]) \<longleftrightarrow>
    leaf_match env (Regex search (Some ''i'')) (map_of d ''name'') \<or>
    leaf_match env (Regex search (Some ''i'')) (map_of d ''company_name'') \<or>
    leaf_match env (Regex search None) (map_of d ''mobile'') \<or>
    leaf_match env (Regex search (Some ''i'')) (map_of d ''email'') \<or>
    leaf_match env (Regex phone None) (map_of d ''mobile'') \<or>
    leaf_match env (Regex phone None) (map_of d ''mobile2'')"
  by simp

text \<open>A predicate that was built went through the three date steps one after the other.\<close>

lemma build_query_InrE:
  assumes "build_query env search company phone disposition cs ce ls le s e = Inr q"
  obtains q5 q6 where
    "call_date_filter env cs ce (disposition_filter disposition
        (phone_filter phone (company_filter company (search_filter search [])))) = Inr q5"
    "lead_date_filter env ls le q5 = Inr q6"
    "created_at_filter env s e q6 = Inr q"
proof (cases "call_date_filter env cs ce (disposition_filter disposition
        (phone_filter phone (company_filter company (search_filter search []))))")
  case (Inl x)
  then show ?thesis using assms by (simp add: build_query_def and_then_simps)
next
  case c: (Inr q5)
  show ?thesis
  proof (cases "lead_date_filter env ls le q5")
    case (Inl x)
    then show ?thesis using assms c by (simp add: build_query_def and_then_simps)
  next
    case (Inr q6)
    then show ?thesis using assms c that by (simp add: build_query_def and_then_simps)
  qed
qed

lemma date_filter_Inl:
  "call_date_filter env a b q = Inl x \<Longrightarrow> x = ValueError"
  "lead_date_filter env a b q = Inl x \<Longrightarrow> x = ValueError"
  "created_at_filter env a b q = Inl x \<Longrightarrow> x = ValueError"
  by (auto simp: call_date_filter_def lead_date_filter_def created_at_filter_def split: if_splits option.splits)

lemma date_filter_invalid:
  "a \<noteq> [] \<Longrightarrow> b \<noteq> [] \<Longrightarrow> fromisoformat env a = None \<or> fromisoformat env b = None \<Longrightarrow> call_date_filter env a b q = Inl ValueError"
  "a \<noteq> [] \<Longrightarrow> b \<noteq> [] \<Longrightarrow> fromisoformat env a = None \<or> fromisoformat env b = None \<Longrightarrow> lead_date_filter env a b q = Inl ValueError"
  "a \<noteq> [] \<Longrightarrow> b \<noteq> [] \<Longrightarrow> fromisoformat env a = None \<or> fromisoformat env b = None \<Longrightarrow> created_at_filter env a b q = Inl ValueError"
  by (auto simp: call_date_filter_def lead_date_filter_def created_at_filter_def split: option.splits)

lemma build_query_invalid:
  assumes "(cs \<noteq> [] \<and> ce \<noteq> [] \<and> (fromisoformat env cs = None \<or> fromisoformat env ce = None))
         \<or> (ls \<noteq> [] \<and> le \<noteq> [] \<and> (fromisoformat env ls = None \<or> fromisoformat env le = None))
         \<or> (s \<noteq> [] \<and> e \<noteq> [] \<and> (fromisoformat env s = None \<or> fromisoformat env e = None))"
  shows "build_query env search company phone disposition cs ce ls le s e = Inl ValueError"
proof -
  define q4 where "q4 = disposition_filter disposition
                (phone_filter phone (company_filter company (search_filter search [])))"
  have bq: "build_query env search company phone disposition cs ce ls le s e =
     and_then (and_then (call_date_filter env cs ce q4) (lead_date_filter env ls le))
       (created_at_filter env s e)"
    by (simp add: build_query_def q4_def)
  show ?thesis
  proof (cases "call_date_filter env cs ce q4")
    case (Inl x)
    then show ?thesis using date_filter_Inl(1) [OF Inl] by (simp add: bq and_then_simps)
  next
    case c: (Inr q5)
    show ?thesis
    proof (cases "lead_date_filter env ls le q5")
      case (Inl x)
      then show ?thesis using c date_filter_Inl(2) [OF Inl] by (simp add: bq and_then_simps)
    next
      case l: (Inr q6)
      show ?thesis
      proof (cases "created_at_filter env s e q6")
        case (Inl x)
        then show ?thesis using c l date_filter_Inl(3) [OF Inl] by (simp add: bq and_then_simps)
      next
        case (Inr q)
        from assms consider
            "cs \<noteq> []" "ce \<noteq> []" "fromisoformat env cs = None \<or> fromisoformat env ce = None"
          | "ls \<noteq> []" "le \<noteq> []" "fromisoformat env ls = None \<or> fromisoformat env le = None"
          | "s \<noteq> []" "e \<noteq> []" "fromisoformat env s = None \<or> fromisoformat env e = None"
          by argo
        then have False
        proof cases
          case 1
          from date_filter_invalid(1) [OF 1, of q4] c show False by simp
        next
          case 2
          from date_filter_invalid(2) [OF 2, of q5] l show False by simp
        next
          case 3
          from date_filter_invalid(3) [OF 3, of q6] Inr show False by simp
        qed
        then show ?thesis ..
      qed
    qed
  qed
qed

text \<open>
  The upper bound of the creation range is not before any moment of its day, down to the
  microsecond; cut to the millisecond, as the database stores dates, it is 23:59:59.999.
\<close>

lemma combine_max_time_end_of_day:
  assumes "year t = year b" and "month t = month b" and "day t = day b"
    and "hour t \<le> 23" and "minute t \<le> 59" and "second t \<le> 59"
    and "microsecond t \<le> 999999"
  shows "dt_le t (combine_max_time b)"
  using assms by (auto simp: dt_le_def combine_max_time_def)

lemma combine_max_time_millisecond:
  "hour (combine_max_time b) = 23 \<and> minute (combine_max_time b) = 59
   \<and> second (combine_max_time b) = 59 \<and> microsecond (combine_max_time b) div 1000 = 999"
  by (simp add: combine_max_time_def)

text \<open>The concrete environment on the inputs used below.\<close>

lemma sample_dates:
  "fromisoformat sample_env ''2024-01-01''
     = Some \<lparr>year = 2024, month = 1, day = 1, hour = 0, minute = 0, second = 0,
              microsecond = 0\<rparr>"
  "fromisoformat sample_env ''2024-01-31''
     = Some \<lparr>year = 2024, month = 1, day = 31, hour = 0, minute = 0, second = 0,
              microsecond = 0\<rparr>"
  "fromisoformat sample_env ''2024-01-15''
     = Some \<lparr>year = 2024, month = 1, day = 15, hour = 0, minute = 0, second = 0,
              microsecond = 0\<rparr>"
  "fromisoformat sample_env ''2024-01-10''
     = Some \<lparr>year = 2024, month = 1, day = 10, hour = 0, minute = 0, second = 0,
              microsecond = 0\<rparr>"
  "fromisoformat sample_env ''31/01/2024'' = None"
  by (simp_all add: sample_env_def sample_fromisoformat_def is_digit_def number_def
        days_in_month_def)

lemma strip_samples:
  "strip ''acme'' = ''acme''" "strip ''98'' = ''98''" "strip ''x'' = ''x''"
  "strip ''Hot'' = ''Hot''" "strip '' '' = []"
  by (simp_all add: strip_def isspace_def)

lemmas filter_defs =
  search_filter_def company_filter_def phone_filter_def disposition_filter_def
  call_date_filter_def lead_date_filter_def created_at_filter_def

text \<open>
  C1. When the free-text search and the phone filter are both non-blank, the predicate is
  one \<^verbatim>\<open>$or\<close> group put in front of the predicate that the other filters build on their own
  (the same request with blank search and phone, which has no \<^verbatim>\<open>$or\<close>, \<^verbatim>\<open>mobile\<close> or
  \<^verbatim>\<open>mobile2\<close> key). The group lists the four search alternatives (name, company name and
  email with option \<^verbatim>\<open>i\<close>, mobile without) followed by the two phone alternatives (mobile
  and mobile2, without option). A document matches when it satisfies one of the six
  alternatives and every other filter.
\<close>

theorem search_and_phone_share_one_or_group:
  assumes "strip search \<noteq> []" and "strip phone \<noteq> []"
  shows "build_query env search company phone disposition call_start call_end
           lead_start lead_end start end'
         = and_then (build_query env [] company [] disposition call_start call_end
                       lead_start lead_end start end')
             (\<lambda>q'. Inr ((''$or'', AnyOf [
                   (''name'', Regex search (Some ''i'')),
                   (''company_name'', Regex search (Some ''i'')),
                   (''mobile'', Regex search None),
                   (''email'', Regex search (Some ''i'')),
                   (''mobile'', Regex phone None),
                   (''mobile2'', Regex phone None)]) # q'))
       \<and> (\<forall>q'. build_query env [] company [] disposition call_start call_end
                  lead_start lead_end start end' = Inr q' \<longrightarrow>
              map_of q' ''$or'' = None \<and> map_of q' ''mobile'' = None \<and> map_of q' ''mobile2'' = None
            \<and> (\<forall>d. matches env ((''$or'', AnyOf [
                   (''name'', Regex search (Some ''i'')),
                   (''company_name'', Regex search (Some ''i'')),
                   (''mobile'', Regex search None),
                   (''email'', Regex search (Some ''i'')),
                   (''mobile'', Regex phone None),
                   (''mobile2'', Regex phone None)]) # q') d
                 \<longleftrightarrow>
                   (leaf_match env (Regex search (Some ''i'')) (map_of d ''name'') \<or>
                    leaf_match env (Regex search (Some ''i'')) (map_of d ''company_name'') \<or>
                    leaf_match env (Regex search None) (map_of d ''mobile'') \<or>
                    leaf_match env (Regex search (Some ''i'')) (map_of d ''email'') \<or>
                    leaf_match env (Regex phone None) (map_of d ''mobile'') \<or>
                    leaf_match env (Regex phone None) (map_of d ''mobile2''))
                   \<and> matches env q' d))"
proof (intro conjI allI impI)
  show "build_query env search company phone disposition call_start call_end
           lead_start lead_end start end'
         = and_then (build_query env [] company [] disposition call_start call_end
                       lead_start lead_end start end')
             (\<lambda>q'. Inr ((''$or'', AnyOf [
                   (''name'', Regex search (Some ''i'')),
                   (''company_name'', Regex search (Some ''i'')),
                   (''mobile'', Regex search None),
                   (''email'', Regex search (Some ''i'')),
                   (''mobile'', Regex phone None),
                   (''mobile2'', Regex phone None)]) # q'))"
    by (rule build_query_both [OF assms])
next
  fix q'
  assume q': "build_query env [] company [] disposition call_start call_end
                lead_start lead_end start end' = Inr q'"
  define q4 where "q4 = disposition_filter disposition
                (phone_filter [] (company_filter company (search_filter [] [])))"
  from q' obtain q5 q6 where
    1: "call_date_filter env call_start call_end q4 = Inr q5"
    and 2: "lead_date_filter env lead_start lead_end q5 = Inr q6"
    and 3: "created_at_filter env start end' q6 = Inr q'"
    unfolding q4_def by (rule build_query_InrE)
  have other: "map_of q' k = None"
    if "k \<noteq> ''company_name''" "k \<noteq> ''disposition''" "k \<noteq> ''call_date''"
       "k \<noteq> ''lead_entry_date''" "k \<noteq> ''created_at''" for k
    using date_filter_other(3) [OF 3 that(5)] date_filter_other(2) [OF 2 that(4)]
      date_filter_other(1) [OF 1 that(3)] base_filters_blank_map_of [OF that(1) that(2)]
    by (simp add: q4_def)
  show "map_of q' ''$or'' = None" by (rule other) simp_all
  show "map_of q' ''mobile'' = None" by (rule other) simp_all
  show "map_of q' ''mobile2'' = None" by (rule other) simp_all
next
  fix q' d
  show "matches env ((''$or'', AnyOf [
                   (''name'', Regex search (Some ''i'')),
                   (''company_name'', Regex search (Some ''i'')),
                   (''mobile'', Regex search None),
                   (''email'', Regex search (Some ''i'')),
                   (''mobile'', Regex phone None),
                   (''mobile2'', Regex phone None)]) # q') d
                 \<longleftrightarrow>
                   (leaf_match env (Regex search (Some ''i'')) (map_of d ''name'') \<or>
                    leaf_match env (Regex search (Some ''i'')) (map_of d ''company_name'') \<or>
                    leaf_match env (Regex search None) (map_of d ''mobile'') \<or>
                    leaf_match env (Regex search (Some ''i'')) (map_of d ''email'') \<or>
                    leaf_match env (Regex phone None) (map_of d ''mobile'') \<or>
                    leaf_match env (Regex phone None) (map_of d ''mobile2''))
                   \<and> matches env q' d"
    unfolding matches_Cons or_group_holds ..
qed


theorem search_and_phone_share_one_or_group_witness:
  "strip ''acme'' \<noteq> [] \<and> strip ''98'' \<noteq> []
   \<and> build_query sample_env ''acme'' ''x'' ''98'' ''Hot'' [] [] [] []
        ''2024-01-01'' ''2024-01-31''
     = Inr [(''$or'', AnyOf [
               (''name'', Regex ''acme'' (Some ''i'')),
               (''company_name'', Regex ''acme'' (Some ''i'')),
               (''mobile'', Regex ''acme'' None),
               (''email'', Regex ''acme'' (Some ''i'')),
               (''mobile'', Regex ''98'' None),
               (''mobile2'', Regex ''98'' None)]),
            (''company_name'', Regex ''x'' (Some ''i'')),
            (''disposition'', Equals ''Hot''),
            (''created_at'', Between
               \<lparr>year = 2024, month = 1, day = 1, hour = 0, minute = 0, second = 0,
                  microsecond = 0\<rparr>
               \<lparr>year = 2024, month = 1, day = 31, hour = 23, minute = 59, second = 59,
                  microsecond = 999999\<rparr>)]"
proof -
  have h1: "strip ''acme'' \<noteq> []" by (simp add: strip_samples)
  have h2: "strip ''98'' \<noteq> []" by (simp add: strip_samples)
  have blank: "build_query sample_env [] ''x'' [] ''Hot'' [] [] [] []
                 ''2024-01-01'' ''2024-01-31''
     = Inr [(''company_name'', Regex ''x'' (Some ''i'')),
            (''disposition'', Equals ''Hot''),
            (''created_at'', Between
               \<lparr>year = 2024, month = 1, day = 1, hour = 0, minute = 0, second = 0,
                  microsecond = 0\<rparr>
               \<lparr>year = 2024, month = 1, day = 31, hour = 23, minute = 59, second = 59,
                  microsecond = 999999\<rparr>)]"
    by (simp add: build_query_def filter_defs strip_Nil strip_samples and_then_simps
          sample_dates combine_max_time_def)
  from search_and_phone_share_one_or_group [OF h1 h2, THEN conjunct1,
      of sample_env "''x''" "''Hot''" "[]" "[]" "[]" "[]" "''2024-01-01''" "''2024-01-31''"]
  show ?thesis by (simp add: blank and_then_simps h1 h2)
qed

text \<open>
  C3. In every predicate that is built, each of the three date ranges is present exactly
  when both of its ends are non-empty, and it then holds the two parsed dates; the end
  of the creation range is moved to 23:59:59.999999 of its day, which the database keeps
  to the millisecond as 23:59:59.999. A range with an empty end changes nothing: the
  builder returns what it returns when both ends are empty, so it cannot fail because
  of it.
\<close>

theorem date_ranges_need_both_ends:
  "(\<forall>q. build_query env search company phone disposition call_start call_end
           lead_start lead_end start end' = Inr q \<longrightarrow>
       ((map_of q ''call_date'' \<noteq> None) = (call_start \<noteq> [] \<and> call_end \<noteq> []))
     \<and> ((map_of q ''lead_entry_date'' \<noteq> None) = (lead_start \<noteq> [] \<and> lead_end \<noteq> []))
     \<and> ((map_of q ''created_at'' \<noteq> None) = (start \<noteq> [] \<and> end' \<noteq> []))
     \<and> (call_start \<noteq> [] \<and> call_end \<noteq> [] \<longrightarrow>
          (\<exists>a b. fromisoformat env call_start = Some a \<and> fromisoformat env call_end = Some b
               \<and> map_of q ''call_date'' = Some (Between a b)))
     \<and> (lead_start \<noteq> [] \<and> lead_end \<noteq> [] \<longrightarrow>
          (\<exists>a b. fromisoformat env lead_start = Some a \<and> fromisoformat env lead_end = Some b
               \<and> map_of q ''lead_entry_date'' = Some (Between a b)))
     \<and> (start \<noteq> [] \<and> end' \<noteq> [] \<longrightarrow>
          (\<exists>a b. fromisoformat env start = Some a \<and> fromisoformat env end' = Some b
               \<and> map_of q ''created_at''
                   = Some (Between a (b\<lparr>hour := 23, minute := 59, second := 59,
                                          microsecond := 999999\<rparr>)))))
   \<and> (call_start = [] \<or> call_end = [] \<longrightarrow>
        build_query env search company phone disposition call_start call_end
          lead_start lead_end start end'
        = build_query env search company phone disposition [] []
            lead_start lead_end start end')
   \<and> (lead_start = [] \<or> lead_end = [] \<longrightarrow>
        build_query env search company phone disposition call_start call_end
          lead_start lead_end start end'
        = build_query env search company phone disposition call_start call_end
            [] [] start end')
   \<and> (start = [] \<or> end' = [] \<longrightarrow>
        build_query env search company phone disposition call_start call_end
          lead_start lead_end start end'
        = build_query env search company phone disposition call_start call_end
            lead_start lead_end [] [])"
proof (intro conjI allI impI)
  fix q
  assume q: "build_query env search company phone disposition call_start call_end
               lead_start lead_end start end' = Inr q"
  define q4 where "q4 = disposition_filter disposition
                (phone_filter phone (company_filter company (search_filter search [])))"
  from q obtain q5 q6 where
    1: "call_date_filter env call_start call_end q4 = Inr q5"
    and 2: "lead_date_filter env lead_start lead_end q5 = Inr q6"
    and 3: "created_at_filter env start end' q6 = Inr q"
    unfolding q4_def by (rule build_query_InrE)
  have q4: "map_of q4 ''call_date'' = None" "map_of q4 ''lead_entry_date'' = None"
    "map_of q4 ''created_at'' = None"
    unfolding q4_def by (simp_all add: base_filters_map_of)
  have q5: "map_of q5 ''lead_entry_date'' = None" "map_of q5 ''created_at'' = None"
    using date_filter_other(1) [OF 1] q4 by simp_all
  have q6: "map_of q6 ''created_at'' = None"
    using date_filter_other(2) [OF 2] q5 by simp
  have call: "map_of q ''call_date'' = map_of q5 ''call_date''"
    using date_filter_other(3) [OF 3] date_filter_other(2) [OF 2] by simp
  have lead: "map_of q ''lead_entry_date'' = map_of q6 ''lead_entry_date''"
    using date_filter_other(3) [OF 3] by simp
  show "(map_of q ''call_date'' \<noteq> None) = (call_start \<noteq> [] \<and> call_end \<noteq> [])"
    unfolding call by (rule call_date_filter_own(1) [OF 1 q4(1)])
  show "(map_of q ''lead_entry_date'' \<noteq> None) = (lead_start \<noteq> [] \<and> lead_end \<noteq> [])"
    unfolding lead by (rule lead_date_filter_own(1) [OF 2 q5(1)])
  show "(map_of q ''created_at'' \<noteq> None) = (start \<noteq> [] \<and> end' \<noteq> [])"
    by (rule created_at_filter_own(1) [OF 3 q6])
  show "\<exists>a b. fromisoformat env call_start = Some a \<and> fromisoformat env call_end = Some b
               \<and> map_of q ''call_date'' = Some (Between a b)"
    if "call_start \<noteq> [] \<and> call_end \<noteq> []"
    unfolding call by (rule call_date_filter_own(2) [OF 1 q4(1) that])
  show "\<exists>a b. fromisoformat env lead_start = Some a \<and> fromisoformat env lead_end = Some b
               \<and> map_of q ''lead_entry_date'' = Some (Between a b)"
    if "lead_start \<noteq> [] \<and> lead_end \<noteq> []"
    unfolding lead by (rule lead_date_filter_own(2) [OF 2 q5(1) that])
  show "\<exists>a b. fromisoformat env start = Some a \<and> fromisoformat env end' = Some b
               \<and> map_of q ''created_at''
                   = Some (Between a (b\<lparr>hour := 23, minute := 59, second := 59,
                                          microsecond := 999999\<rparr>))"
    if "start \<noteq> [] \<and> end' \<noteq> []"
    by (rule created_at_filter_own(2) [OF 3 q6 that])
next
  assume "call_start = [] \<or> call_end = []"
  then show "build_query env search company phone disposition call_start call_end
          lead_start lead_end start end'
        = build_query env search company phone disposition [] []
            lead_start lead_end start end'"
    by (simp add: build_query_def date_filter_one_sided)
next
  assume "lead_start = [] \<or> lead_end = []"
  then have "lead_date_filter env lead_start lead_end = lead_date_filter env [] []"
    by (simp add: fun_eq_iff date_filter_one_sided)
  then show "build_query env search company phone disposition call_start call_end
          lead_start lead_end start end'
        = build_query env search company phone disposition call_start call_end
            [] [] start end'"
    by (simp add: build_query_def)
next
  assume "start = [] \<or> end' = []"
  then have "created_at_filter env start end' = created_at_filter env [] []"
    by (simp add: fun_eq_iff date_filter_one_sided)
  then show "build_query env search company phone disposition call_start call_end
          lead_start lead_end start end'
        = build_query env search company phone disposition call_start call_end
            lead_start lead_end [] []"
    by (simp add: build_query_def)
qed

theorem date_ranges_need_both_ends_witness:
  "build_query sample_env [] [] [] [] ''2024-01-01'' [] [] ''2024-03-31''
      ''2024-01-01'' ''2024-01-31''
     = Inr [(''created_at'', Between
               \<lparr>year = 2024, month = 1, day = 1, hour = 0, minute = 0, second = 0,
                  microsecond = 0\<rparr>
               \<lparr>year = 2024, month = 1, day = 31, hour = 23, minute = 59, second = 59,
                  microsecond = 999999\<rparr>)]
   \<and> build_query sample_env [] [] [] [] ''2024-01-01'' [] [] ''2024-03-31''
        ''2024-01-01'' ''2024-01-31''
     = build_query sample_env [] [] [] [] [] [] [] ''2024-03-31'' ''2024-01-01'' ''2024-01-31''
   \<and> map_of [(''created_at'', Between
               \<lparr>year = 2024, month = 1, day = 1, hour = 0, minute = 0, second = 0,
                  microsecond = 0\<rparr>
               \<lparr>year = 2024, month = 1, day = 31, hour = 23, minute = 59, second = 59,
                  microsecond = 999999\<rparr>)] ''call_date'' = None"
proof -
  let ?q = "[(''created_at'', Between
               \<lparr>year = 2024, month = 1, day = 1, hour = 0, minute = 0, second = 0,
                  microsecond = 0\<rparr>
               \<lparr>year = 2024, month = 1, day = 31, hour = 23, minute = 59, second = 59,
                  microsecond = 999999\<rparr>)]"
  have run: "build_query sample_env [] [] [] [] ''2024-01-01'' [] [] ''2024-03-31''
      ''2024-01-01'' ''2024-01-31'' = Inr ?q"
    by (simp add: build_query_def filter_defs strip_Nil and_then_simps sample_dates
          combine_max_time_def)
  note inst = date_ranges_need_both_ends [of sample_env "[]" "[]" "[]" "[]" "''2024-01-01''" "[]"
      "[]" "''2024-03-31''" "''2024-01-01''" "''2024-01-31''"]
  from inst have "(map_of ?q ''call_date'' \<noteq> None) = (''2024-01-01'' \<noteq> [] \<and> ([]::string) \<noteq> [])"
    using run by blast
  moreover from inst have
    "build_query sample_env [] [] [] [] ''2024-01-01'' [] [] ''2024-03-31''
        ''2024-01-01'' ''2024-01-31''
     = build_query sample_env [] [] [] [] [] [] [] ''2024-03-31'' ''2024-01-01'' ''2024-01-31''"
    by blast
  ultimately show ?thesis using run by simp
qed

text \<open>
  C10. When both ends of a date range are non-empty and one of them is not a date
  \<^verbatim>\<open>fromisoformat\<close> accepts, \<^verbatim>\<open>get_history\<close> ends with the \<^verbatim>\<open>ValueError\<close> that was raised:
  it neither drops the filter nor returns a page.
\<close>

theorem get_history_raises_on_invalid_date:
  assumes "(call_start \<noteq> [] \<and> call_end \<noteq> []
             \<and> (fromisoformat env call_start = None \<or> fromisoformat env call_end = None))
         \<or> (lead_start \<noteq> [] \<and> lead_end \<noteq> []
             \<and> (fromisoformat env lead_start = None \<or> fromisoformat env lead_end = None))
         \<or> (start \<noteq> [] \<and> end' \<noteq> []
             \<and> (fromisoformat env start = None \<or> fromisoformat env end' = None))"
  shows "get_history env st page limit search company phone disposition call_start call_end
           lead_start lead_end start end' = Inl ValueError"
  by (simp add: get_history_def build_query_invalid [OF assms])

theorem get_history_raises_on_invalid_date_witness:
  "''2024-01-01'' \<noteq> [] \<and> ''31/01/2024'' \<noteq> []
   \<and> fromisoformat sample_env ''31/01/2024'' = None
   \<and> get_history sample_env [] 1 50 [] [] [] [] [] [] [] [] ''2024-01-01'' ''31/01/2024''
       = Inl ValueError"
proof -
  have bad: "fromisoformat sample_env ''31/01/2024'' = None" by (rule sample_dates)
  have "get_history sample_env [] 1 50 [] [] [] [] [] [] [] [] ''2024-01-01'' ''31/01/2024''
       = Inl ValueError"
    by (rule get_history_raises_on_invalid_date) (simp add: bad)
  then show ?thesis using bad by simp
qed

section \<open>The collection and the handlers that write\<close>

lemma map_of_store_Cons:
  "map_of (sd # st) oid = (if fst sd = oid then Some (snd sd) else map_of st oid)"
  by (cases sd) auto

lemma delete_one_no_match: "map_of st oid = None \<Longrightarrow> delete_one oid st = (0, st)"
  by (induction st) (auto simp: map_of_store_Cons split: if_splits)

lemma delete_one_match:
  "map_of st oid = Some d \<Longrightarrow> \<exists>st'. delete_one oid st = (1, st') \<and> length st = Suc (length st')"
  by (induction st) (auto simp: map_of_store_Cons split: if_splits prod.splits)

lemma update_one_no_match: "map_of st oid = None \<Longrightarrow> update_one env oid data st = Inr (0, st)"
  by (induction st) (auto simp: map_of_store_Cons split: if_splits)

lemma update_one_no_change:
  assumes "map_of st oid = Some d" and "apply_set env data (oid, d) = Inr (oid, d)"
  shows "update_one env oid data st = Inr (0, st)"
  using assms
proof (induction st)
  case Nil
  then show ?case by simp
next
  case (Cons sd st)
  show ?case
  proof (cases "fst sd = oid")
    case True
    with Cons.prems(1) have "sd = (oid, d)" by (cases sd) simp
    then show ?thesis using Cons.prems(2) by simp
  next
    case False
    with Cons.prems(1) have "map_of st oid = Some d" by (simp add: map_of_store_Cons)
    from Cons.IH [OF this Cons.prems(2)] False show ?thesis by simp
  qed
qed

lemma apply_set_empty: "apply_set env [] sd = Inr sd"
  by (simp add: apply_set_def conflict_def)

text \<open>A key without a dot is its own field.\<close>

lemma top_field_no_dot: "below key = None \<Longrightarrow> top_field key = key"
proof -
  assume "below key = None"
  then have "dropWhile (\<lambda>c. c \<noteq> CHR ''.'') key = []"
    by (simp add: below_def split: list.splits)
  with takeWhile_dropWhile_id [of "\<lambda>c. c \<noteq> CHR ''.''" key] show ?thesis
    by (simp add: top_field_def)
qed

text \<open>An entry leaves every field but the one its key addresses as it was.\<close>

lemma set_entry_other:
  assumes "set_entry env key v d = Inr d'" and "top_field key \<noteq> k"
  shows "map_of d' k = map_of d k"
proof (cases "below key")
  case None
  with assms(1) have "d' = setitem key (bson v) d"
    by (simp add: set_entry_def split: if_splits)
  moreover from top_field_no_dot [OF None] assms(2) have "key \<noteq> k" by simp
  ultimately show ?thesis by (simp add: map_of_setitem)
next
  case (Some rest)
  with assms(1) obtain x where "d' = setitem (top_field key) x d"
    by (auto simp: set_entry_def split: if_splits sum.splits)
  then show ?thesis using assms(2) by (simp add: map_of_setitem)
qed

lemma set_fields_other:
  assumes "\<not> list_ex (\<lambda>kv. top_field (fst kv) = k) data"
  shows "set_fields env data d = Inr d' \<Longrightarrow> map_of d' k = map_of d k"
  using assms
proof (induction data arbitrary: d)
  case Nil
  then show ?case by simp
next
  case (Cons kv data)
  from Cons.prems(2) have ne: "top_field (fst kv) \<noteq> k"
    and rest: "\<not> list_ex (\<lambda>kv. top_field (fst kv) = k) data"
    by simp_all
  from Cons.prems(1) obtain d1 where 1: "set_entry env (fst kv) (snd kv) d = Inr d1"
    and 2: "set_fields env data d1 = Inr d'"
    by (auto split: sum.splits)
  from Cons.IH [OF 2 rest] set_entry_other [OF 1 ne] show ?case by simp
qed

lemma list_ex_filter: "\<not> list_ex P data \<Longrightarrow> \<not> list_ex P (filter Q data)"
  by (induction data) auto

lemma apply_set_created_at:
  assumes "\<not> list_ex (\<lambda>kv. top_field (fst kv) = ''created_at'') data"
    and "apply_set env data sd = Inr sd'"
  shows "fst sd' = fst sd \<and> map_of (snd sd') ''created_at'' = map_of (snd sd) ''created_at''"
proof -
  from assms(2) obtain d' where
    1: "set_fields env (filter (\<lambda>kv. fst kv \<noteq> ''_id'') data) (snd sd) = Inr d'"
    and 2: "sd' = (fst sd, d')"
    by (auto simp: apply_set_def split: if_splits sum.splits)
  from set_fields_other [OF list_ex_filter [OF assms(1)] 1] 2 show ?thesis by simp
qed

lemma update_one_created:
  assumes "\<not> list_ex (\<lambda>kv. top_field (fst kv) = ''created_at'') data"
  shows "update_one env oid data st = Inr (n, st') \<Longrightarrow> created st' = created st"
proof (induction st arbitrary: n st')
  case Nil
  then show ?case by simp
next
  case (Cons sd st)
  show ?case
  proof (cases "fst sd = oid")
    case True
    with Cons.prems obtain sd' where sd': "apply_set env data sd = Inr sd'"
      and st': "st' = sd' # st"
      by (auto split: sum.splits)
    from apply_set_created_at [OF assms sd'] st' show ?thesis by (simp add: created_def)
  next
    case False
    with Cons.prems obtain st'' where 1: "update_one env oid data st = Inr (n, st'')"
      and 2: "st' = sd # st''"
      by (auto split: sum.splits)
    from Cons.IH [OF 1] 2 show ?thesis by (simp add: created_def)
  qed
qed

text \<open>
  Parsing the two date fields replaces values under keys the map already has, so it
  brings in no key.
\<close>

lemma list_ex_setitem:
  "\<not> list_ex (\<lambda>kv. P (fst kv)) d \<Longrightarrow> \<not> P k \<Longrightarrow> \<not> list_ex (\<lambda>kv. P (fst kv)) (setitem k v d)"
  by (induction d) (auto split: if_splits)

lemma top_field_date_fields:
  "top_field ''call_date'' = ''call_date''" "top_field ''lead_entry_date'' = ''lead_entry_date''"
  by (simp_all add: top_field_def)

lemma parse_date_field_keys:
  assumes "parse_date_field env field data = Inr data'"
    and "\<not> list_ex (\<lambda>kv. top_field (fst kv) = ''created_at'') data"
    and "top_field field \<noteq> ''created_at''"
  shows "\<not> list_ex (\<lambda>kv. top_field (fst kv) = ''created_at'') data'"
proof -
  from assms(1) consider "data' = data"
    | d where "data' = setitem field (VDate d) data"
    by (auto simp: parse_date_field_def split: option.splits val.splits)
  then show ?thesis
  proof cases
    case 1
    then show ?thesis using assms(2) by simp
  next
    case 2
    from list_ex_setitem [of "\<lambda>key. top_field key = ''created_at''" data field, OF assms(2,3)]
    show ?thesis by (simp add: 2)
  qed
qed

lemma parse_dates_keys:
  assumes "and_then (parse_date_field env ''call_date'' data)
             (parse_date_field env ''lead_entry_date'') = Inr data'"
    and "\<not> list_ex (\<lambda>kv. top_field (fst kv) = ''created_at'') data"
  shows "\<not> list_ex (\<lambda>kv. top_field (fst kv) = ''created_at'') data'"
proof (cases "parse_date_field env ''call_date'' data")
  case (Inl e)
  then show ?thesis using assms(1) by (simp add: and_then_simps)
next
  case (Inr data1)
  with assms(1) have 2: "parse_date_field env ''lead_entry_date'' data1 = Inr data'"
    by (simp add: and_then_simps)
  have 1: "\<not> list_ex (\<lambda>kv. top_field (fst kv) = ''created_at'') data1"
    by (rule parse_date_field_keys [OF Inr assms(2)]) (simp add: top_field_date_fields)
  show ?thesis
    by (rule parse_date_field_keys [OF 2 1]) (simp add: top_field_date_fields)
qed

lemma update_contact_created:
  assumes "\<not> list_ex (\<lambda>kv. top_field (fst kv) = ''created_at'') data"
  shows "created (snd (update_contact env id' data st)) = created st"
proof (cases "objectid env id'")
  case None
  then show ?thesis by (simp add: update_contact_def)
next
  case (Some oid)
  show ?thesis
  proof (cases "and_then (parse_date_field env ''call_date'' data)
                  (parse_date_field env ''lead_entry_date'')")
    case (Inl e)
    then show ?thesis using Some by (simp add: update_contact_def)
  next
    case (Inr data')
    from parse_dates_keys [OF Inr assms]
    have none: "\<not> list_ex (\<lambda>kv. top_field (fst kv) = ''created_at'') data'" .
    show ?thesis
    proof (cases "update_one env oid data' st")
      case (Inl e)
      then show ?thesis using Some Inr by (simp add: update_contact_def)
    next
      case r: (Inr res)
      obtain n st' where res: "res = (n, st')" by (cases res)
      from update_one_created [OF none, of env oid st n st'] r res
      have "created st' = created st" by simp
      then show ?thesis using Some Inr r res by (simp add: update_contact_def)
    qed
  qed
qed

lemma delete_one_subset: "set (snd (delete_one oid st)) \<subseteq> set st"
  by (induction st) (auto split: prod.splits)

lemma delete_one_created: "set (created (snd (delete_one oid st))) \<subseteq> set (created st)"
  using image_mono [OF delete_one_subset [of oid st]] by (simp add: created_def)

lemma delete_contact_created:
  "set (created (snd (delete_contact env contact_id st))) \<subseteq> set (created st)"
proof (cases "objectid env contact_id")
  case None
  then show ?thesis by (simp add: delete_contact_def delete_contact_try_def)
next
  case (Some oid)
  obtain n st' where d: "delete_one oid st = (n, st')" by (cases "delete_one oid st")
  from delete_one_created [of oid st] d have "set (created st') \<subseteq> set (created st)" by simp
  then show ?thesis using Some d by (simp add: delete_contact_def delete_contact_try_def)
qed

text \<open>What a submission does, case by case.\<close>

lemma submit_contact_bad_date:
  assumes "fromisoformat env call_date = None \<or> fromisoformat env lead_entry_date = None"
  shows "submit_contact env utcnow new_id st company_name name designation mobile mobile2
           landline email email2 linkedin address existing_client partner_name
           call_date lead_entry_date comments disposition
         = (Inl (HTTPException 500 ''Server error while saving contact''), st)"
  using assms
  by (auto simp: submit_contact_def submit_contact_try_def split: option.splits)

lemma submit_contact_duplicate:
  assumes "new_id \<in> fst ` set st"
  shows "submit_contact env utcnow new_id st company_name name designation mobile mobile2
           landline email email2 linkedin address existing_client partner_name
           call_date lead_entry_date comments disposition
         = (Inl (HTTPException 500 ''Server error while saving contact''), st)"
  using assms
  by (simp add: submit_contact_def submit_contact_try_def insert_one_def split: option.splits)

lemma bson_if_else_none: "bson (if_else_none f x) = if_else_none f x"
  by (simp add: if_else_none_def split: option.splits)

lemma submit_contact_ok:
  assumes "fromisoformat env call_date = Some cd"
    and "fromisoformat env lead_entry_date = Some ld"
    and "new_id \<notin> fst ` set st"
  shows "submit_contact env utcnow new_id st company_name name designation mobile mobile2
           landline email email2 linkedin address existing_client partner_name
           call_date lead_entry_date comments disposition
         = (Inr [(''status'', VStr ''success''),
                 (''message'', VStr ''Contact saved successfully'')],
            st @ [(new_id, [
                   (''company_name'', VStr (strip company_name)),
                   (''name'', VStr (strip name)),
                   (''designation'', VStr (strip designation)),
                   (''mobile'', VStr (strip mobile)),
                   (''mobile2'', if_else_none strip mobile2),
                   (''landline'', if_else_none strip landline),
                   (''email'', VStr (lower (strip email))),
                   (''email2'', if_else_none (\<lambda>s. lower (strip s)) email2),
                   (''linkedin'', if_else_none strip linkedin),
                   (''address'', VStr (strip address)),
                   (''existing_client'', VStr existing_client),
                   (''partner_name'', if_else_none strip partner_name),
                   (''call_date'', VDate (bson_datetime cd)),
                   (''lead_entry_date'', VDate (bson_datetime ld)),
                   (''comments'', if_else_none strip comments),
                   (''disposition'', VStr disposition),
                   (''created_at'', VDate (bson_datetime utcnow))])])"
  using assms
  by (simp add: submit_contact_def submit_contact_try_def insert_one_def bson_if_else_none)

lemma submit_contact_created:
  "set (created (snd (submit_contact env utcnow new_id st company_name name designation
           mobile mobile2 landline email email2 linkedin address existing_client partner_name
           call_date lead_entry_date comments disposition)))
     \<subseteq> set (created st) \<union> {(new_id, Some (VDate (bson_datetime utcnow)))}"
proof (cases "fromisoformat env call_date")
  case None
  then show ?thesis by (auto simp: submit_contact_bad_date)
next
  case cd: (Some cd)
  show ?thesis
  proof (cases "fromisoformat env lead_entry_date")
    case None
    then show ?thesis by (auto simp: submit_contact_bad_date)
  next
    case ld: (Some ld)
    show ?thesis
    proof (cases "new_id \<in> fst ` set st")
      case True
      then show ?thesis by (auto simp: submit_contact_duplicate)
    next
      case False
      show ?thesis
        unfolding submit_contact_ok [OF cd ld False] by (simp add: created_def)
    qed
  qed
qed

lemma serve_created:
  assumes "\<not> names_created_at r"
  shows "set (created (serve env r st)) \<subseteq> set (created st) \<union> set (stamp r)"
proof (cases r)
  case (Submit utcnow new_id company_name name designation mobile mobile2 landline
       email email2 linkedin address existing_client partner_name
       call_date lead_entry_date comments disposition)
  then show ?thesis using submit_contact_created by simp
next
  case (Update id' data)
  with assms have "\<not> list_ex (\<lambda>kv. top_field (fst kv) = ''created_at'') data" by simp
  from update_contact_created [OF this] Update show ?thesis by simp
next
  case (Delete contact_id)
  then show ?thesis using delete_contact_created by simp
qed

lemma sample_oid:
  "objectid sample_env ''65a1b2c3d4e5f60718293a4b'' = Some ''65a1b2c3d4e5f60718293a4b''"
  by (simp add: sample_env_def sample_objectid_def is_hex_def lower_def lower_char_def)

lemma lower_samples: "lower ''x'' = ''x''"
  by (simp add: lower_def lower_char_def)

lemma sample_str_exn: "str_exn sample_env e = sample_str_exn e"
  by (simp add: sample_env_def)

lemma bson_sample_dates:
  "bson_datetime \<lparr>year = y, month = m, day = d, hour = h, minute = mi, second = s,
                   microsecond = 0\<rparr>
     = \<lparr>year = y, month = m, day = d, hour = h, minute = mi, second = s, microsecond = 0\<rparr>"
  by (simp add: bson_datetime_def)

lemma sample_keys:
  "update_key_ok sample_env ''name''" "update_key_ok sample_env ''call_date''"
  "update_key_ok sample_env ''created_at''" "update_key_ok sample_env ''created_at.by''"
  "below ''name'' = None" "below ''call_date'' = None" "below ''created_at'' = None"
  "below ''created_at.by'' = Some ''by''"
  "top_field ''name'' = ''name''" "top_field ''created_at'' = ''created_at''"
  "top_field ''created_at.by'' = ''created_at''"
  by (simp_all add: sample_env_def sample_update_key_ok_def below_def top_field_def)

lemma sample_set_below_eq: "set_below sample_env rest v old = set_in (split_path rest) v old"
  by (simp add: sample_env_def sample_set_below_def)

text \<open>
  C4 (what the code does where the claim expects status 404). A well-formed identifier
  that matches no stored document: the body raises \<^verbatim>\<open>HTTPException(404)\<close>, the handler's
  own \<^verbatim>\<open>except Exception\<close> catches it, and the caller gets status 500 with the 404 quoted
  in the detail. Nothing is deleted.
\<close>

theorem delete_contact_missing_is_500:
  assumes "objectid env contact_id = Some oid" and "map_of st oid = None"
  shows "delete_contact env contact_id st
         = (Inl (HTTPException 500
                   (''Error deleting contact: ''
                      @ str_exn env (HTTPException 404 ''Contact not found''))), st)"
  using assms
  by (simp add: delete_contact_def delete_contact_try_def delete_one_no_match)

theorem delete_contact_missing_is_500_witness:
  "objectid sample_env ''65a1b2c3d4e5f60718293a4b'' = Some ''65a1b2c3d4e5f60718293a4b''
   \<and> map_of ([] :: store) ''65a1b2c3d4e5f60718293a4b'' = None
   \<and> delete_contact sample_env ''65a1b2c3d4e5f60718293a4b'' []
       = (Inl (HTTPException 500 ''Error deleting contact: 404: Contact not found''), [])"
proof -
  have "map_of ([] :: store) ''65a1b2c3d4e5f60718293a4b'' = None" by simp
  from delete_contact_missing_is_500 [OF sample_oid this]
  show ?thesis by (simp add: sample_oid sample_str_exn digit_char_def)
qed

text \<open>On an identifier that is stored the handler does report a deleted count of 1.\<close>

lemma delete_contact_existing:
  assumes "objectid env contact_id = Some oid" and "map_of st oid = Some d"
  shows "\<exists>st'. delete_contact env contact_id st
           = (Inr [(''status'', VStr ''success''),
                   (''message'', VStr ''Contact deleted successfully''),
                   (''deleted_count'', VInt 1)], st')
         \<and> length st = Suc (length st')"
proof -
  from delete_one_match [OF assms(2)] obtain st' where
    "delete_one oid st = (1, st')" "length st = Suc (length st')" by blast
  then show ?thesis using assms(1) by (simp add: delete_contact_def delete_contact_try_def)
qed

text \<open>
  C5, as the claim states it, fails: with every required field filled in, a call date
  that does not parse makes the submission end with status 500, the handler's answer to
  every exception, not with a validation error.
\<close>

theorem post_submit_bad_date_counterexample:
  "fromisoformat sample_env ''31/01/2024'' = None
   \<and> post_submit sample_env
        \<lparr>year = 2024, month = 2, day = 1, hour = 9, minute = 30, second = 0, microsecond = 0\<rparr>
        ''65a1b2c3d4e5f60718293a4b'' []
        (Some ''acme'') (Some ''acme'') (Some ''x'') (Some ''98'') None None (Some ''x'')
        None None (Some ''x'') (Some ''x'') None
        (Some ''31/01/2024'') (Some ''2024-01-10'') None (Some ''Hot'')
     = (Inl (HTTPException 500 ''Server error while saving contact''), [])
   \<and> status_code (HTTPException 500 ''Server error while saving contact'') = 500"
  by (simp add: post_submit_def missing_def submit_contact_bad_date sample_dates)

text \<open>
  C5 as amended. A submission in which a required field is absent or empty is refused
  before the handler runs, with the validation status 422, and stores nothing. A
  submission in which every required field holds more than white space and the call date
  or the lead-entry date does not parse fails with status 500 and stores nothing. (A
  required field that holds white space only is in neither case.)
\<close>

theorem post_submit_validation_and_dates:
  "(missing company_name \<or> missing name \<or> missing designation \<or> missing mobile
      \<or> missing email \<or> missing address \<or> missing existing_client
      \<or> missing call_date \<or> missing lead_entry_date \<or> missing disposition \<longrightarrow>
      post_submit env utcnow new_id st company_name name designation mobile mobile2
        landline email email2 linkedin address existing_client partner_name
        call_date lead_entry_date comments disposition
      = (Inl RequestValidationError, st)
      \<and> status_code RequestValidationError = 422)
   \<and> (strip cn \<noteq> [] \<and> strip nm \<noteq> [] \<and> strip dg \<noteq> [] \<and> strip mb \<noteq> [] \<and> strip em \<noteq> []
      \<and> strip ad \<noteq> [] \<and> strip ec \<noteq> [] \<and> strip cd \<noteq> [] \<and> strip ld \<noteq> [] \<and> strip dp \<noteq> []
      \<and> (fromisoformat env cd = None \<or> fromisoformat env ld = None) \<longrightarrow>
      post_submit env utcnow new_id st (Some cn) (Some nm) (Some dg) (Some mb) mobile2
        landline (Some em) email2 linkedin (Some ad) (Some ec) partner_name
        (Some cd) (Some ld) comments (Some dp)
      = (Inl (HTTPException 500 ''Server error while saving contact''), st)
      \<and> status_code (HTTPException 500 ''Server error while saving contact'') = 500)"
proof (intro conjI impI)
  assume "missing company_name \<or> missing name \<or> missing designation \<or> missing mobile
      \<or> missing email \<or> missing address \<or> missing existing_client
      \<or> missing call_date \<or> missing lead_entry_date \<or> missing disposition"
  then show "post_submit env utcnow new_id st company_name name designation mobile mobile2
        landline email email2 linkedin address existing_client partner_name
        call_date lead_entry_date comments disposition
      = (Inl RequestValidationError, st)"
    by (simp add: post_submit_def)
next
  show "status_code RequestValidationError = 422" by simp
next
  assume h: "strip cn \<noteq> [] \<and> strip nm \<noteq> [] \<and> strip dg \<noteq> [] \<and> strip mb \<noteq> [] \<and> strip em \<noteq> []
      \<and> strip ad \<noteq> [] \<and> strip ec \<noteq> [] \<and> strip cd \<noteq> [] \<and> strip ld \<noteq> [] \<and> strip dp \<noteq> []
      \<and> (fromisoformat env cd = None \<or> fromisoformat env ld = None)"
  then have filled: "cn \<noteq> []" "nm \<noteq> []" "dg \<noteq> []" "mb \<noteq> []" "em \<noteq> []" "ad \<noteq> []"
    "ec \<noteq> []" "cd \<noteq> []" "ld \<noteq> []" "dp \<noteq> []"
    using strip_Nil by auto
  from h have bad: "fromisoformat env cd = None \<or> fromisoformat env ld = None" by simp
  show "post_submit env utcnow new_id st (Some cn) (Some nm) (Some dg) (Some mb) mobile2
        landline (Some em) email2 linkedin (Some ad) (Some ec) partner_name
        (Some cd) (Some ld) comments (Some dp)
      = (Inl (HTTPException 500 ''Server error while saving contact''), st)"
    using filled by (simp add: post_submit_def missing_def submit_contact_bad_date [OF bad])
next
  show "status_code (HTTPException 500 ''Server error while saving contact'') = 500" by simp
qed

theorem post_submit_validation_and_dates_witness:
  "missing (Some [])
   \<and> post_submit sample_env
        \<lparr>year = 2024, month = 2, day = 1, hour = 9, minute = 30, second = 0, microsecond = 0\<rparr>
        ''65a1b2c3d4e5f60718293a4b'' []
        (Some ''acme'') (Some []) (Some ''x'') (Some ''98'') None None (Some ''x'')
        None None (Some ''x'') (Some ''x'') None
        (Some ''2024-01-15'') (Some ''2024-01-10'') None (Some ''Hot'')
     = (Inl RequestValidationError, [])
   \<and> strip ''acme'' \<noteq> [] \<and> strip ''x'' \<noteq> [] \<and> strip ''98'' \<noteq> [] \<and> strip ''Hot'' \<noteq> []
   \<and> strip ''2024-01-15'' \<noteq> [] \<and> strip ''31/01/2024'' \<noteq> []
   \<and> fromisoformat sample_env ''31/01/2024'' = None
   \<and> post_submit sample_env
        \<lparr>year = 2024, month = 2, day = 1, hour = 9, minute = 30, second = 0, microsecond = 0\<rparr>
        ''65a1b2c3d4e5f60718293a4b'' []
        (Some ''acme'') (Some ''acme'') (Some ''x'') (Some ''98'') None None (Some ''x'')
        None None (Some ''x'') (Some ''x'') None
        (Some ''2024-01-15'') (Some ''31/01/2024'') None (Some ''Hot'')
     = (Inl (HTTPException 500 ''Server error while saving contact''), [])"
proof -
  have m: "missing (Some [])" by (simp add: missing_def)
  have s: "strip ''acme'' \<noteq> []" "strip ''x'' \<noteq> []" "strip ''98'' \<noteq> []" "strip ''Hot'' \<noteq> []"
    "strip ''2024-01-15'' \<noteq> []" "strip ''31/01/2024'' \<noteq> []"
    by (simp_all add: strip_def isspace_def)
  have bad: "fromisoformat sample_env ''2024-01-15'' = None
               \<or> fromisoformat sample_env ''31/01/2024'' = None"
    by (simp add: sample_dates)
  note a = post_submit_validation_and_dates
      [where env = sample_env and name = "Some []" and company_name = "Some ''acme''"
         and designation = "Some ''x''" and mobile = "Some ''98''" and email = "Some ''x''"
         and address = "Some ''x''" and existing_client = "Some ''x''"
         and call_date = "Some ''2024-01-15''" and lead_entry_date = "Some ''2024-01-10''"
         and disposition = "Some ''Hot''" and ?mobile2.0 = None and landline = None
         and ?email2.0 = None and linkedin = None and partner_name = None and comments = None
         and utcnow = "\<lparr>year = 2024, month = 2, day = 1, hour = 9, minute = 30, second = 0,
                          microsecond = 0\<rparr>"
         and new_id = "''65a1b2c3d4e5f60718293a4b''" and st = "[]",
       THEN conjunct1, THEN mp, THEN conjunct1]
  note b = post_submit_validation_and_dates
      [where env = sample_env and cn = "''acme''" and nm = "''acme''" and dg = "''x''"
         and mb = "''98''" and em = "''x''" and ad = "''x''" and ec = "''x''"
         and cd = "''2024-01-15''" and ld = "''31/01/2024''" and dp = "''Hot''"
         and ?mobile2.0 = None and landline = None
         and ?email2.0 = None and linkedin = None and partner_name = None and comments = None
         and utcnow = "\<lparr>year = 2024, month = 2, day = 1, hour = 9, minute = 30, second = 0,
                          microsecond = 0\<rparr>"
         and new_id = "''65a1b2c3d4e5f60718293a4b''" and st = "[]",
       THEN conjunct2, THEN mp, THEN conjunct1]
  have 1: "post_submit sample_env
        \<lparr>year = 2024, month = 2, day = 1, hour = 9, minute = 30, second = 0, microsecond = 0\<rparr>
        ''65a1b2c3d4e5f60718293a4b'' []
        (Some ''acme'') (Some []) (Some ''x'') (Some ''98'') None None (Some ''x'')
        None None (Some ''x'') (Some ''x'') None
        (Some ''2024-01-15'') (Some ''2024-01-10'') None (Some ''Hot'')
     = (Inl RequestValidationError, [])"
    by (rule a) (simp add: m)
  have 2: "post_submit sample_env
        \<lparr>year = 2024, month = 2, day = 1, hour = 9, minute = 30, second = 0, microsecond = 0\<rparr>
        ''65a1b2c3d4e5f60718293a4b'' []
        (Some ''acme'') (Some ''acme'') (Some ''x'') (Some ''98'') None None (Some ''x'')
        None None (Some ''x'') (Some ''x'') None
        (Some ''2024-01-15'') (Some ''31/01/2024'') None (Some ''Hot'')
     = (Inl (HTTPException 500 ''Server error while saving contact''), [])"
    by (rule b) (simp add: s bad)
  from m s 1 2 show ?thesis by (simp add: sample_dates)
qed

text \<open>
  What the amended statement leaves open: a required field of white space only is
  neither refused nor kept. The handler trims it and stores the empty string.
\<close>

lemma post_submit_whitespace_name_stored_empty:
  "post_submit sample_env
        \<lparr>year = 2024, month = 2, day = 1, hour = 9, minute = 30, second = 0, microsecond = 0\<rparr>
        ''65a1b2c3d4e5f60718293a4b'' []
        (Some ''acme'') (Some '' '') (Some ''x'') (Some ''98'') None None (Some ''x'')
        None None (Some ''x'') (Some ''x'') None
        (Some ''2024-01-15'') (Some ''2024-01-10'') None (Some ''Hot'')
     = (Inr [(''status'', VStr ''success''), (''message'', VStr ''Contact saved successfully'')],
        [(''65a1b2c3d4e5f60718293a4b'', [
           (''company_name'', VStr ''acme''),
           (''name'', VStr []),
           (''designation'', VStr ''x''),
           (''mobile'', VStr ''98''),
           (''mobile2'', VNone),
           (''landline'', VNone),
           (''email'', VStr ''x''),
           (''email2'', VNone),
           (''linkedin'', VNone),
           (''address'', VStr ''x''),
           (''existing_client'', VStr ''x''),
           (''partner_name'', VNone),
           (''call_date'', VDate \<lparr>year = 2024, month = 1, day = 15, hour = 0, minute = 0,
                                   second = 0, microsecond = 0\<rparr>),
           (''lead_entry_date'', VDate \<lparr>year = 2024, month = 1, day = 10, hour = 0,
                                         minute = 0, second = 0, microsecond = 0\<rparr>),
           (''comments'', VNone),
           (''disposition'', VStr ''Hot''),
           (''created_at'', VDate \<lparr>year = 2024, month = 2, day = 1, hour = 9, minute = 30,
                                    second = 0, microsecond = 0\<rparr>)])])"
  by (simp add: post_submit_def missing_def given_def
        submit_contact_ok [OF sample_dates(3) sample_dates(4)]
        strip_samples if_else_none_def lower_samples bson_sample_dates)

text \<open>
  C6. On a well-formed identifier of a stored document, an update that leaves the document
  as it is (the empty map, or a map whose dates parse and whose assignment changes
  nothing) answers 404 and leaves the collection as it was: outcome for outcome what the
  same update answers on a collection where no document has that identifier.
\<close>

theorem update_contact_no_change_is_404:
  assumes "objectid env id' = Some oid" and "map_of st oid = Some d"
  shows "update_contact env id' [] st
           = (Inl (HTTPException 404 ''Contact not found or no changes made''), st)
       \<and> (\<forall>data data'.
            and_then (parse_date_field env ''call_date'' data)
              (parse_date_field env ''lead_entry_date'') = Inr data'
            \<and> apply_set env data' (oid, d) = Inr (oid, d) \<longrightarrow>
              update_contact env id' data st
                = (Inl (HTTPException 404 ''Contact not found or no changes made''), st)
            \<and> (\<forall>st'. map_of st' oid = None \<longrightarrow>
                  update_contact env id' data st'
                    = (Inl (HTTPException 404 ''Contact not found or no changes made''), st')))"
proof (intro conjI allI impI)
  have "parse_date_field env ''call_date'' [] = Inr []"
    "parse_date_field env ''lead_entry_date'' [] = Inr []"
    by (simp_all add: parse_date_field_def)
  then show "update_contact env id' [] st
           = (Inl (HTTPException 404 ''Contact not found or no changes made''), st)"
    using assms update_one_no_change [OF assms(2) apply_set_empty]
    by (simp add: update_contact_def and_then_simps)
next
  fix data data'
  assume "and_then (parse_date_field env ''call_date'' data)
              (parse_date_field env ''lead_entry_date'') = Inr data'
            \<and> apply_set env data' (oid, d) = Inr (oid, d)"
  then have p: "and_then (parse_date_field env ''call_date'' data)
              (parse_date_field env ''lead_entry_date'') = Inr data'"
    and n: "apply_set env data' (oid, d) = Inr (oid, d)"
    by simp_all
  show "update_contact env id' data st
                = (Inl (HTTPException 404 ''Contact not found or no changes made''), st)"
    using assms(1) p update_one_no_change [OF assms(2) n]
    by (simp add: update_contact_def)
  fix st' :: store
  assume "map_of st' oid = None"
  then show "update_contact env id' data st'
                    = (Inl (HTTPException 404 ''Contact not found or no changes made''), st')"
    using assms(1) p update_one_no_match [of st' oid env data']
    by (simp add: update_contact_def)
qed

theorem update_contact_no_change_is_404_witness:
  "objectid sample_env ''65a1b2c3d4e5f60718293a4b'' = Some ''65a1b2c3d4e5f60718293a4b''
   \<and> map_of [(''65a1b2c3d4e5f60718293a4b'',
         [(''name'', VStr ''acme''),
          (''call_date'', VDate \<lparr>year = 2024, month = 1, day = 15, hour = 0, minute = 0,
                                  second = 0, microsecond = 0\<rparr>)])]
        ''65a1b2c3d4e5f60718293a4b''
       = Some [(''name'', VStr ''acme''),
               (''call_date'', VDate \<lparr>year = 2024, month = 1, day = 15, hour = 0, minute = 0,
                                       second = 0, microsecond = 0\<rparr>)]
   \<and> update_contact sample_env ''65a1b2c3d4e5f60718293a4b''
        [(''name'', VStr ''acme''), (''call_date'', VStr ''2024-01-15'')]
        [(''65a1b2c3d4e5f60718293a4b'',
           [(''name'', VStr ''acme''),
            (''call_date'', VDate \<lparr>year = 2024, month = 1, day = 15, hour = 0, minute = 0,
                                    second = 0, microsecond = 0\<rparr>)])]
       = (Inl (HTTPException 404 ''Contact not found or no changes made''),
          [(''65a1b2c3d4e5f60718293a4b'',
             [(''name'', VStr ''acme''),
              (''call_date'', VDate \<lparr>year = 2024, month = 1, day = 15, hour = 0, minute = 0,
                                      second = 0, microsecond = 0\<rparr>)])])
   \<and> update_contact sample_env ''65a1b2c3d4e5f60718293a4b''
        [(''name'', VStr ''acme''), (''call_date'', VStr ''2024-01-15'')] []
       = (Inl (HTTPException 404 ''Contact not found or no changes made''), [])"
proof -
  let ?d = "[(''name'', VStr ''acme''),
             (''call_date'', VDate \<lparr>year = 2024, month = 1, day = 15, hour = 0, minute = 0,
                                     second = 0, microsecond = 0\<rparr>)]"
  let ?data = "[(''name'', VStr ''acme''), (''call_date'', VStr ''2024-01-15'')]"
  have stored: "map_of [(''65a1b2c3d4e5f60718293a4b'', ?d)] ''65a1b2c3d4e5f60718293a4b''
                  = Some ?d"
    by simp
  have parsed: "and_then (parse_date_field sample_env ''call_date'' ?data)
                  (parse_date_field sample_env ''lead_entry_date'') = Inr ?d"
    by (simp add: parse_date_field_def and_then_simps sample_dates)
  have same: "apply_set sample_env ?d (''65a1b2c3d4e5f60718293a4b'', ?d)
                = Inr (''65a1b2c3d4e5f60718293a4b'', ?d)"
    by (simp add: apply_set_def conflict_def set_entry_def sample_keys top_field_date_fields
          bson_sample_dates)
  have none: "map_of ([] :: store) ''65a1b2c3d4e5f60718293a4b'' = None" by simp
  note t = update_contact_no_change_is_404 [OF sample_oid stored, THEN conjunct2, rule_format,
      OF conjI [OF parsed same]]
  from t [THEN conjunct1] t [THEN conjunct2, rule_format, OF none] sample_oid stored
  show ?thesis by simp
qed

text \<open>
  C7, as the claim states it, fails: an update whose map has the key \<^verbatim>\<open>created_at\<close> is
  applied like any other and replaces the stored value with the caller's.
\<close>

theorem update_contact_created_at_counterexample:
  "update_contact sample_env ''65a1b2c3d4e5f60718293a4b''
     [(''created_at'', VStr ''1999-12-31'')]
     [(''65a1b2c3d4e5f60718293a4b'',
        [(''name'', VStr ''acme''),
         (''created_at'', VDate \<lparr>year = 2024, month = 2, day = 1, hour = 9, minute = 30,
                                  second = 0, microsecond = 0\<rparr>)])]
   = (Inr [(''status'', VStr ''success''), (''message'', VStr ''Contact updated'')],
      [(''65a1b2c3d4e5f60718293a4b'',
         [(''name'', VStr ''acme''), (''created_at'', VStr ''1999-12-31'')])])
   \<and> VStr ''1999-12-31''
       \<noteq> VDate \<lparr>year = 2024, month = 2, day = 1, hour = 9, minute = 30, second = 0,
                  microsecond = 0\<rparr>"
  by (simp add: update_contact_def sample_oid parse_date_field_def and_then_simps
        apply_set_def conflict_def set_entry_def sample_keys)

text \<open>
  So does an update whose key is a path into \<^verbatim>\<open>created_at\<close>: on a document without the
  field it makes one.
\<close>

lemma update_contact_path_into_created_at:
  "created (snd (update_contact sample_env ''65a1b2c3d4e5f60718293a4b''
     [(''created_at.by'', VStr ''me'')]
     [(''65a1b2c3d4e5f60718293a4b'', [(''name'', VStr ''acme'')])]))
   = [(''65a1b2c3d4e5f60718293a4b'', Some (VDict [(''by'', VStr ''me'')]))]
   \<and> created [(''65a1b2c3d4e5f60718293a4b'', [(''name'', VStr ''acme'')])]
       = [(''65a1b2c3d4e5f60718293a4b'', None)]"
  by (simp add: update_contact_def sample_oid parse_date_field_def and_then_simps
        apply_set_def conflict_def set_entry_def sample_keys created_def
        sample_set_below_eq)

text \<open>
  C7 as amended. The stamp is the server clock's reading at insertion, kept to the
  millisecond as the database keeps dates, and no form field reaches it. An update names
  \<^verbatim>\<open>created_at\<close> when a key of its map is \<^verbatim>\<open>created_at\<close> or a path that starts with
  \<^verbatim>\<open>created_at.\<close>; an update that does not name it leaves the \<^verbatim>\<open>created_at\<close> of every stored
  document as it was, whatever the database does with its keys. And after any sequence of
  submissions, updates and deletions in which no update names \<^verbatim>\<open>created_at\<close>, each stored
  document has the \<^verbatim>\<open>created_at\<close> it had at the start or the stamp of a submission that
  inserted under its identifier.
\<close>

theorem created_at_kept_unless_update_names_it:
  "(\<forall>id' data. \<not> names_created_at (Update id' data) \<longrightarrow>
       created (snd (update_contact env id' data st)) = created st)
   \<and> (\<forall>rs. (\<forall>r \<in> set rs. \<not> names_created_at r) \<longrightarrow>
         set (created (serve_all env rs st)) \<subseteq> set (created st) \<union> set (concat (map stamp rs)))"
proof (intro conjI allI impI)
  fix id' and data :: doc
  assume "\<not> names_created_at (Update id' data)"
  then have "\<not> list_ex (\<lambda>kv. top_field (fst kv) = ''created_at'') data" by simp
  then show "created (snd (update_contact env id' data st)) = created st"
    by (rule update_contact_created)
next
  fix rs
  assume "\<forall>r \<in> set rs. \<not> names_created_at r"
  then show "set (created (serve_all env rs st))
               \<subseteq> set (created st) \<union> set (concat (map stamp rs))"
  proof (induction rs arbitrary: st)
    case Nil
    then show ?case by simp
  next
    case (Cons r rs)
    from Cons.prems have r: "\<not> names_created_at r" and rs: "\<forall>r \<in> set rs. \<not> names_created_at r"
      by simp_all
    have "set (created (serve_all env rs (serve env r st)))
            \<subseteq> set (created (serve env r st)) \<union> set (concat (map stamp rs))"
      by (rule Cons.IH [OF rs])
    also have "\<dots> \<subseteq> (set (created st) \<union> set (stamp r)) \<union> set (concat (map stamp rs))"
      using serve_created [OF r, of env st] by blast
    finally show ?case by (simp add: Un_assoc)
  qed
qed

theorem created_at_kept_unless_update_names_it_witness:
  "created (snd (update_contact sample_env ''65a1b2c3d4e5f60718293a4b''
        [(''name'', VStr ''x'')]
        [(''65a1b2c3d4e5f60718293a4b'',
           [(''name'', VStr ''acme''),
            (''created_at'', VDate \<lparr>year = 2024, month = 2, day = 1, hour = 9, minute = 30,
                                     second = 0, microsecond = 0\<rparr>)])]))
     = [(''65a1b2c3d4e5f60718293a4b'',
          Some (VDate \<lparr>year = 2024, month = 2, day = 1, hour = 9, minute = 30, second = 0,
                        microsecond = 0\<rparr>))]
   \<and> \<not> names_created_at (Update ''65a1b2c3d4e5f60718293a4b'' [(''name'', VStr ''x'')])
   \<and> \<not> names_created_at (Delete ''65a1b2c3d4e5f60718293a4b'')
   \<and> set (created (serve_all sample_env
              [Submit \<lparr>year = 2024, month = 3, day = 1, hour = 0, minute = 0, second = 0,
                        microsecond = 0\<rparr>
                 ''65a1b2c3d4e5f60718293a4c''
                 ''acme'' ''acme'' ''x'' ''98'' None None ''x'' None None ''x'' ''x'' None
                 ''2024-01-15'' ''2024-01-10'' None ''Hot'',
               Update ''65a1b2c3d4e5f60718293a4b'' [(''name'', VStr ''x'')],
               Delete ''65a1b2c3d4e5f60718293a4b'']
              [(''65a1b2c3d4e5f60718293a4b'',
                 [(''name'', VStr ''acme''),
                  (''created_at'', VDate \<lparr>year = 2024, month = 2, day = 1, hour = 9,
                                           minute = 30, second = 0, microsecond = 0\<rparr>)])]))
     \<subseteq> {(''65a1b2c3d4e5f60718293a4b'',
           Some (VDate \<lparr>year = 2024, month = 2, day = 1, hour = 9, minute = 30, second = 0,
                         microsecond = 0\<rparr>)),
          (''65a1b2c3d4e5f60718293a4c'',
           Some (VDate \<lparr>year = 2024, month = 3, day = 1, hour = 0, minute = 0, second = 0,
                         microsecond = 0\<rparr>))}"
proof -
  let ?st = "[(''65a1b2c3d4e5f60718293a4b'',
                 [(''name'', VStr ''acme''),
                  (''created_at'', VDate \<lparr>year = 2024, month = 2, day = 1, hour = 9,
                                           minute = 30, second = 0, microsecond = 0\<rparr>)])]"
  let ?rs = "[Submit \<lparr>year = 2024, month = 3, day = 1, hour = 0, minute = 0, second = 0,
                        microsecond = 0\<rparr>
                 ''65a1b2c3d4e5f60718293a4c''
                 ''acme'' ''acme'' ''x'' ''98'' None None ''x'' None None ''x'' ''x'' None
                 ''2024-01-15'' ''2024-01-10'' None ''Hot'',
              Update ''65a1b2c3d4e5f60718293a4b'' [(''name'', VStr ''x'')],
              Delete ''65a1b2c3d4e5f60718293a4b'']"
  have k: "\<not> names_created_at (Update ''65a1b2c3d4e5f60718293a4b'' [(''name'', VStr ''x'')])"
    by (simp add: sample_keys)
  have ok: "\<forall>r \<in> set ?rs. \<not> names_created_at r" by (simp add: sample_keys)
  note a = created_at_kept_unless_update_names_it [of sample_env ?st, THEN conjunct1,
      THEN spec, THEN spec, THEN mp, OF k]
  note b = created_at_kept_unless_update_names_it [of sample_env ?st, THEN conjunct2,
      THEN spec, THEN mp, OF ok]
  have "set (created ?st) \<union> set (concat (map stamp ?rs))
          = {(''65a1b2c3d4e5f60718293a4b'',
               Some (VDate \<lparr>year = 2024, month = 2, day = 1, hour = 9, minute = 30,
                             second = 0, microsecond = 0\<rparr>)),
             (''65a1b2c3d4e5f60718293a4c'',
               Some (VDate \<lparr>year = 2024, month = 3, day = 1, hour = 0, minute = 0,
                             second = 0, microsecond = 0\<rparr>))}"
    by (simp add: created_def insert_commute bson_sample_dates)
  with b have "set (created (serve_all sample_env ?rs ?st))
      \<subseteq> {(''65a1b2c3d4e5f60718293a4b'',
               Some (VDate \<lparr>year = 2024, month = 2, day = 1, hour = 9, minute = 30,
                             second = 0, microsecond = 0\<rparr>)),
             (''65a1b2c3d4e5f60718293a4c'',
               Some (VDate \<lparr>year = 2024, month = 3, day = 1, hour = 0, minute = 0,
                             second = 0, microsecond = 0\<rparr>))}"
    by simp
  moreover from a have "created (snd (update_contact sample_env ''65a1b2c3d4e5f60718293a4b''
        [(''name'', VStr ''x'')] ?st))
     = [(''65a1b2c3d4e5f60718293a4b'',
          Some (VDate \<lparr>year = 2024, month = 2, day = 1, hour = 9, minute = 30, second = 0,
                        microsecond = 0\<rparr>))]"
    by (simp add: created_def)
  ultimately show ?thesis by (simp add: sample_keys)
qed

text \<open>
  C8 (what the code does where the claim expects null). An optional field that is not
  empty but all white space passes the handler's test \<^verbatim>\<open>if mobile2\<close>, is trimmed, and is
  stored as the empty string. Shown for \<^verbatim>\<open>mobile2\<close>; the other five optional fields go
  through the same expression.
\<close>

theorem submit_contact_blank_optional_stored_empty:
  assumes "fromisoformat env call_date = Some cd"
    and "fromisoformat env lead_entry_date = Some ld"
    and "new_id \<notin> fst ` set st"
    and "mobile2 = Some s" and "s \<noteq> []" and "strip s = []"
  shows "\<exists>contact.
           snd (submit_contact env utcnow new_id st company_name name designation mobile
                  mobile2 landline email email2 linkedin address existing_client partner_name
                  call_date lead_entry_date comments disposition)
             = st @ [(new_id, contact)]
         \<and> map_of contact ''mobile2'' = Some (VStr [])"
  unfolding submit_contact_ok [OF assms(1,2,3)]
  using assms(4,5,6) by (simp add: if_else_none_def)

theorem submit_contact_blank_optional_stored_empty_witness:
  "'' '' \<noteq> [] \<and> strip '' '' = []
   \<and> (\<exists>contact.
         snd (submit_contact sample_env
           \<lparr>year = 2024, month = 2, day = 1, hour = 9, minute = 30, second = 0,
              microsecond = 0\<rparr>
           ''65a1b2c3d4e5f60718293a4b'' []
           ''acme'' ''acme'' ''x'' ''98'' (Some '' '') None ''x'' None None ''x'' ''x'' None
           ''2024-01-15'' ''2024-01-10'' None ''Hot'')
         = [(''65a1b2c3d4e5f60718293a4b'', contact)]
       \<and> map_of contact ''mobile2'' = Some (VStr []))"
proof -
  have fresh: "''65a1b2c3d4e5f60718293a4b'' \<notin> fst ` set ([] :: store)" by simp
  have s: "'' '' \<noteq> []" "strip '' '' = []" by (simp_all add: strip_samples)
  from submit_contact_blank_optional_stored_empty
         [OF sample_dates(3) sample_dates(4) fresh refl s]
  show ?thesis using s by simp
qed

text \<open>An optional field that is absent or empty is stored as null, as the claim says.\<close>

lemma if_else_none_absent_or_empty:
  "if_else_none f None = VNone" "if_else_none f (Some []) = VNone"
  by (simp_all add: if_else_none_def)

text \<open>
  C9. On the empty collection the export raises nothing and hands the spreadsheet writer
  a table with no columns and no rows.
\<close>

theorem export_excel_empty_collection:
  "export_excel env [] = Inr \<lparr>columns = [], rows = []\<rparr>"
  by (simp add: export_excel_def sort_desc_def DataFrame_def)

theorem export_excel_empty_collection_witness:
  "export_excel sample_env [] = Inr \<lparr>columns = [], rows = []\<rparr>
   \<and> rows \<lparr>columns = [], rows = []\<rparr> = []"
  using export_excel_empty_collection [of sample_env] by simp

text \<open>In general the table has one row for each stored document.\<close>

lemma length_insert_desc: "length (insert_desc env k x ys) = Suc (length ys)"
  by (induction ys) simp_all

lemma length_sort_desc: "length (sort_desc env k st) = length st"
  by (induction st) (simp_all add: sort_desc_def length_insert_desc)

lemma export_excel_row_count:
  "\<exists>t. export_excel env st = Inr t \<and> length (rows t) = length st"
proof -
  have "length (filter (\<lambda>sd. is_date (map_of (document sd) ''created_at'')) st)
          + length (filter (\<lambda>sd. \<not> is_date (map_of (document sd) ''created_at'')) st)
        = length st"
    by (rule sum_length_filter_compl)
  then show ?thesis
    by (simp add: export_excel_def DataFrame_def drop_column_def Let_def length_sort_desc)
qed

end
